theory Spec2Isabelle
  imports Main "HOL-Library.Multiset"
begin

section \<open>Values, rows and tables\<close>

text \<open>
  The program is one Python class, \<^verbatim>\<open>InsuranceDataCleaner\<close>, whose methods transform
  the pandas table \<^verbatim>\<open>self.df\<close> in place. The embedding passes the table explicitly:
  every method is a function from a table to either an error (the exception that the
  method raises) or the table it leaves behind.

  A Python \<^verbatim>\<open>str\<close> is a sequence of Unicode code points, so a string is a list of
  natural numbers here; \<open>u\<close> injects an ASCII literal. The Cyrillic literals of the source
  are written as code point lists, with a transliteration next to each of them.

  The methods are short, and what they do is what the functions of pandas and dateutil do
  that they call. Those functions are modelled next to the method that calls them, from
  their documented behaviour and, for \<^verbatim>\<open>relativedelta\<close> and the date format, from
  their algorithm. Two of them are parameters of the model: the parser of
  \<^verbatim>\<open>pd.to_datetime\<close> without a format, and the sort inside
  \<^verbatim>\<open>value_counts\<close>, whose order among equal counts is not specified.
\<close>

type_synonym ustr = "nat list"

definition u :: "string \<Rightarrow> ustr" where
  "u s = map of_char s"

text \<open>
  The timestamps of this program carry no time of day (they come from the format
  \<^verbatim>\<open>%d.%m.%Y\<close>), so a timestamp is a calendar date. The limited range of a
  nanosecond timestamp is not part of the model.
\<close>

record date =
  year :: int
  month :: int
  day :: int

text \<open>
  A cell of the table: the missing number \<open>NaN\<close> (what an empty spreadsheet cell is read
  as, and what \<^verbatim>\<open>Series.map\<close> gives for a key outside its dictionary), the missing
  timestamp \<open>NaT\<close>, a number, a string, or a timestamp. Numbers are integers: ages, years
  of experience and month counts.
\<close>

datatype cell = NaN | NaT | Num int | Str ustr | Ts date

datatype error = KeyError | TypeError | ValueError | AssertionError

type_synonym row = "ustr \<Rightarrow> cell"

text \<open>
  A table is the list of its column labels and the list of its rows. A row gives a cell for
  every label; only the cells at the labels in \<open>columns\<close> belong to the table, and every
  read of a column below is guarded by the membership test that makes pandas raise
  \<^verbatim>\<open>KeyError\<close>. The table read from the spreadsheet has the unique row labels
  \<open>0, 1, 2, \<dots>\<close> and no step introduces a duplicate, so selecting or dropping rows by label
  is selecting or dropping the rows themselves.
\<close>

record frame =
  columns :: "ustr list"
  rows :: "row list"

definition has_col :: "frame \<Rightarrow> ustr \<Rightarrow> bool" where
  "has_col t c = (c \<in> set (columns t))"

definition nrows :: "frame \<Rightarrow> nat" where
  "nrows t = length (rows t)"

text \<open>\<^verbatim>\<open>df[c] = values\<close> with a row-wise computed value: the column is appended when new.\<close>

definition assign :: "ustr \<Rightarrow> (row \<Rightarrow> cell) \<Rightarrow> frame \<Rightarrow> frame" where
  "assign c f t =
     \<lparr>columns = (if c \<in> set (columns t) then columns t else columns t @ [c]),
      rows = map (\<lambda>r. r(c := f r)) (rows t)\<rparr>"

text \<open>\<^verbatim>\<open>df[mask]\<close>: the rows at which the mask holds.\<close>

definition select_rows :: "(row \<Rightarrow> bool) \<Rightarrow> frame \<Rightarrow> frame" where
  "select_rows p t = \<lparr>columns = columns t, rows = filter p (rows t)\<rparr>"

text \<open>\<^verbatim>\<open>df.drop(columns=cs)\<close>: raises \<^verbatim>\<open>KeyError\<close> when a label is not there.\<close>

definition drop_columns :: "ustr list \<Rightarrow> frame \<Rightarrow> error + frame" where
  "drop_columns cs t =
     (if \<forall>c \<in> set cs. has_col t c
      then Inr \<lparr>columns = filter (\<lambda>c. c \<notin> set cs) (columns t), rows = rows t\<rparr>
      else Inl KeyError)"

text \<open>Sequencing of two steps: an exception of the first ends the run.\<close>

definition and_then :: "error + 'a \<Rightarrow> ('a \<Rightarrow> error + 'b) \<Rightarrow> error + 'b" where
  "and_then m f = (case m of Inl e \<Rightarrow> Inl e | Inr x \<Rightarrow> f x)"

subsection \<open>Arithmetic and comparison of cells\<close>

text \<open>
  pandas subtracts and compares columns element by element. A missing number makes the
  difference missing and every comparison false; a string or a timestamp in a numeric
  column makes the subtraction raise \<^verbatim>\<open>TypeError\<close>.
\<close>

fun numeric :: "cell \<Rightarrow> bool" where
  "numeric NaN = True"
| "numeric (Num n) = True"
| "numeric c = False"

fun minus_cell :: "cell \<Rightarrow> cell \<Rightarrow> cell" where
  "minus_cell (Num a) (Num b) = Num (a - b)"
| "minus_cell a b = NaN"

fun gt_cell :: "cell \<Rightarrow> cell \<Rightarrow> bool" where
  "gt_cell (Num a) (Num b) = (a > b)"
| "gt_cell a b = False"

fun lt_cell :: "cell \<Rightarrow> cell \<Rightarrow> bool" where
  "lt_cell (Num a) (Num b) = (a < b)"
| "lt_cell a b = False"

fun ge_cell :: "cell \<Rightarrow> cell \<Rightarrow> bool" where
  "ge_cell (Num a) (Num b) = (a \<ge> b)"
| "ge_cell a b = False"


fun isna :: "cell \<Rightarrow> bool" where
  "isna NaN = True"
| "isna NaT = True"
| "isna c = False"

section \<open>drop\_features\<close>

definition drop_features :: "frame \<Rightarrow> error + frame" where
  "drop_features t =
     drop_columns [u ''Unique number'', u ''Citizenship'', u ''Gender'', u ''Loss_amount'',
                   u ''Accident_region''] t"

section \<open>adjust\_invalid\_driving\_experience\<close>

text \<open>
  \<^verbatim>\<open>
  self.df['Age_gap'] = self.df['Age'] - self.df['Driving_experience']
  invalid_experience = self.df[self.df['Driving_experience'] > self.df['Age']]
  self.df.drop(index=invalid_experience.index, inplace=True)
  started_under_18 = self.df[self.df['Age_gap'] < 18]
  adjustment = 18 - started_under_18['Age_gap']
  self.df.loc[started_under_18.index, 'Driving_experience'] -= adjustment
  self.df.drop(columns=['Age_gap'], inplace=True)
  self.df = self.df[self.df['Driving_experience'] >= 0]
  \<close>
\<close>

definition adjust_row :: "row \<Rightarrow> row" where
  "adjust_row r =
     (if lt_cell (r (u ''Age_gap'')) (Num 18)
      then r(u ''Driving_experience'' :=
               minus_cell (r (u ''Driving_experience''))
                          (minus_cell (Num 18) (r (u ''Age_gap''))))
      else r)"

definition adjust_invalid_driving_experience :: "frame \<Rightarrow> error + frame" where
  "adjust_invalid_driving_experience t =
     (if \<not> has_col t (u ''Age'') \<or> \<not> has_col t (u ''Driving_experience'') then Inl KeyError
      else if \<exists>r \<in> set (rows t). \<not> numeric (r (u ''Age'')) \<or> \<not> numeric (r (u ''Driving_experience''))
      then Inl TypeError
      else
        let t1 = assign (u ''Age_gap'')
                   (\<lambda>r. minus_cell (r (u ''Age'')) (r (u ''Driving_experience''))) t;
            t2 = select_rows (\<lambda>r. \<not> gt_cell (r (u ''Driving_experience'')) (r (u ''Age''))) t1;
            t3 = \<lparr>columns = columns t2, rows = map adjust_row (rows t2)\<rparr>
        in and_then (drop_columns [u ''Age_gap''] t3)
             (\<lambda>t4. Inr (select_rows (\<lambda>r. ge_cell (r (u ''Driving_experience'')) (Num 0)) t4)))"

section \<open>Strings\<close>

text \<open>
  \<^verbatim>\<open>str.strip()\<close> removes the white space of Python at both ends: the code points
  for which \<^verbatim>\<open>str.isspace\<close> holds.
\<close>

definition py_isspace :: "nat \<Rightarrow> bool" where
  "py_isspace n =
     ((9 \<le> n \<and> n \<le> 13) \<or> (28 \<le> n \<and> n \<le> 32) \<or> n = 133 \<or> n = 160 \<or> n = 5760
      \<or> (8192 \<le> n \<and> n \<le> 8202) \<or> n = 8232 \<or> n = 8233 \<or> n = 8239 \<or> n = 8287
      \<or> n = 12288)"

definition py_strip :: "ustr \<Rightarrow> ustr" where
  "py_strip s = rev (dropWhile py_isspace (rev (dropWhile py_isspace s)))"

text \<open>
  \<^verbatim>\<open>str.lower()\<close> on the Basic Latin letters and on the Cyrillic capitals
  \<open>U+0400\<close> to \<open>U+042F\<close>; every other code point is left as it is. The keys of
  \<^verbatim>\<open>color_mapping\<close> are made of the small letters \<open>U+0430\<close> to \<open>U+044F\<close>, the
  space and the hyphen, and no code point outside the modelled ranges has one of these
  as its lower case.
\<close>

definition lower_cp :: "nat \<Rightarrow> nat" where
  "lower_cp n =
     (if 65 \<le> n \<and> n \<le> 90 then n + 32
      else if 1040 \<le> n \<and> n \<le> 1071 then n + 32
      else if 1024 \<le> n \<and> n \<le> 1039 then n + 80
      else n)"

definition py_lower :: "ustr \<Rightarrow> ustr" where
  "py_lower s = map lower_cp s"

text \<open>\<^verbatim>\<open>s.split(c)\<close> for a separator of one character: never the empty list.\<close>

fun split_on :: "nat \<Rightarrow> ustr \<Rightarrow> ustr list" where
  "split_on c [] = [[]]"
| "split_on c (x # xs) =
     (if x = c then [] # split_on c xs
      else (case split_on c xs of p # ps \<Rightarrow> (x # p) # ps | [] \<Rightarrow> [[x]]))"

text \<open>\<^verbatim>\<open>str(n)\<close> of an integer, and zero padding for the fields of a date.\<close>

fun digits :: "nat \<Rightarrow> ustr" where
  "digits n = (if n < 10 then [48 + n] else digits (n div 10) @ [48 + n mod 10])"

definition str_int :: "int \<Rightarrow> ustr" where
  "str_int i = (if i < 0 then 45 # digits (nat (- i)) else digits (nat i))"

definition zfill :: "nat \<Rightarrow> ustr \<Rightarrow> ustr" where
  "zfill w s = replicate (w - length s) 48 @ s"

text \<open>
  \<^verbatim>\<open>Series.astype(str)\<close>, cell by cell: \<^verbatim>\<open>str(x)\<close>. The missing number prints
  as \<^verbatim>\<open>nan\<close>. (In a column of floating point numbers pandas prints a number with a
  trailing \<^verbatim>\<open>.0\<close>; the two dictionaries that the printed strings are looked up in have
  Cyrillic keys only, so that no printed number or date is a key either way.)
\<close>

fun astype_str :: "cell \<Rightarrow> ustr" where
  "astype_str (Str s) = s"
| "astype_str NaN = u ''nan''"
| "astype_str NaT = u ''NaT''"
| "astype_str (Num n) = str_int n"
| "astype_str (Ts d) =
     zfill 4 (str_int (year d)) @ u ''-'' @ zfill 2 (str_int (month d)) @ u ''-''
       @ zfill 2 (str_int (day d)) @ u '' 00:00:00''"

text \<open>\<^verbatim>\<open>Series.map(d)\<close> with a dictionary: a value that is not a key becomes \<open>NaN\<close>.\<close>

fun map_dict :: "(ustr \<times> ustr) list \<Rightarrow> cell \<Rightarrow> cell" where
  "map_dict d (Str s) = (case map_of d s of Some v \<Rightarrow> Str v | None \<Rightarrow> NaN)"
| "map_dict d c = NaN"

text \<open>\<^verbatim>\<open>Series.fillna(v)\<close>, cell by cell.\<close>

definition fillna :: "ustr \<Rightarrow> cell \<Rightarrow> cell" where
  "fillna v c = (if isna c then Str v else c)"

section \<open>clean\_vehicle\_and\_insurance\_info\<close>

text \<open>
  \<^verbatim>\<open>self.df.columns = self.df.columns.str.strip()\<close> relabels the columns. A row is
  read at a new label through the first old label that strips to it. (Two labels that strip
  to the same string give a table with a duplicate label, which the model does not
  describe: the theorems about this step assume the stripped labels distinct where it
  matters.)
\<close>

definition relabel_row :: "ustr list \<Rightarrow> row \<Rightarrow> row" where
  "relabel_row cs r =
     (\<lambda>n. case find (\<lambda>c. py_strip c = n) cs of Some c \<Rightarrow> r c | None \<Rightarrow> r n)"

definition strip_columns :: "frame \<Rightarrow> frame" where
  "strip_columns t =
     \<lparr>columns = map py_strip (columns t), rows = map (relabel_row (columns t)) (rows t)\<rparr>"

definition trailer_gruzovoy :: ustr where \<comment> \<open>Pritsep k gruzovoy a/m\<close>
  "trailer_gruzovoy =
     [1055, 1088, 1080, 1094, 1077, 1087, 32, 1082, 32, 1075, 1088, 1091, 1079, 1086, 1074,
      1086, 1081, 32, 1072, 47, 1084]"

definition trailer_legkovoy :: ustr where \<comment> \<open>Pritsep k legkovoy a/m\<close>
  "trailer_legkovoy =
     [1055, 1088, 1080, 1094, 1077, 1087, 32, 1082, 32, 1083, 1077, 1075, 1082, 1086, 1074,
      1086, 1081, 32, 1072, 47, 1084]"

definition vehicle_Legkovye_avtomobili :: ustr where \<comment> \<open>Legkovye avtomobili\<close>
  "vehicle_Legkovye_avtomobili =
     [1051, 1077, 1075, 1082, 1086, 1074, 1099, 1077, 32, 1072, 1074, 1090, 1086, 1084, 1086,
      1073, 1080, 1083, 1080]"

definition vehicle_Mototsikly :: ustr where \<comment> \<open>Mototsikly\<close>
  "vehicle_Mototsikly =
     [1052, 1086, 1090, 1086, 1094, 1080, 1082, 1083, 1099]"

definition vehicle_Gruzovye :: ustr where \<comment> \<open>Gruzovye\<close>
  "vehicle_Gruzovye =
     [1043, 1088, 1091, 1079, 1086, 1074, 1099, 1077]"

definition vehicle_Avtobusy :: ustr where \<comment> \<open>Avtobusy\<close>
  "vehicle_Avtobusy =
     [1040, 1074, 1090, 1086, 1073, 1091, 1089, 1099]"

definition vehicle_mapping :: "(ustr \<times> ustr) list" where
  "vehicle_mapping =
   [([1051, 1077, 1075, 1082, 1086, 1074, 1099, 1077, 32, 1072, 1074, 1090, 1086, 1084, 1086,
       1073, 1080, 1083, 1080], \<comment> \<open>Legkovye avtomobili\<close>
       vehicle_Legkovye_avtomobili),
    ([1052, 1086, 1090, 1086, 1094, 1080, 1082, 1083, 1099, 32, 1080, 32, 1084, 1086, 1090,
       1086, 1088, 1086, 1083, 1083, 1077, 1088, 1099], \<comment> \<open>Mototsikly i motorollery\<close>
       vehicle_Mototsikly),
    ([1043, 1088, 1091, 1079, 1086, 1074, 1099, 1077, 32, 1072, 1074, 1090, 1086, 1084, 1086,
       1073, 1080, 1083, 1080], \<comment> \<open>Gruzovye avtomobili\<close>
       vehicle_Gruzovye),
    ([1040, 1074, 1090, 1086, 1073, 1091, 1089, 1099, 32, 1076, 1086, 32, 49, 54, 32, 1087,
       47, 1084, 32, 1074, 1082, 1083, 46], \<comment> \<open>Avtobusy do 16 p/m vkl.\<close>
       vehicle_Avtobusy),
    ([1040, 1074, 1090, 1086, 1073, 1091, 1089, 1099, 44, 32, 1089, 1074, 1099, 1096, 1077,
       32, 49, 54, 32, 1087, 47, 1084], \<comment> \<open>Avtobusy, svyshe 16 p/m\<close>
       vehicle_Avtobusy)]"

text \<open>
  \<^verbatim>\<open>pd.to_datetime(column, errors='coerce')\<close> with no format: a timestamp stays,
  a missing value becomes \<open>NaT\<close>, and what pandas makes of a number or of a string (it
  guesses the format from the column) is the parameter \<open>parse\<close>, given the column and the
  position in it; \<open>None\<close> is a value that does not parse.
\<close>

type_synonym parser = "cell list \<Rightarrow> nat \<Rightarrow> date option"

definition to_datetime_coerce :: "parser \<Rightarrow> cell list \<Rightarrow> nat \<Rightarrow> cell" where
  "to_datetime_coerce parse col i =
     (case col ! i of
        Ts d \<Rightarrow> Ts d
      | NaN \<Rightarrow> NaT
      | NaT \<Rightarrow> NaT
      | _ \<Rightarrow> (case parse col i of Some d \<Rightarrow> Ts d | None \<Rightarrow> NaT))"

text \<open>\<^verbatim>\<open>2025 - column.dt.year\<close>: missing for \<open>NaT\<close>.\<close>

fun car_age :: "cell \<Rightarrow> cell" where
  "car_age (Ts d) = Num (2025 - year d)"
| "car_age c = NaN"

definition parse_year_of_manufacture :: "parser \<Rightarrow> frame \<Rightarrow> frame" where
  "parse_year_of_manufacture parse t =
     (let col = map (\<lambda>r. r (u ''Year_of_manufacture'')) (rows t)
      in \<lparr>columns = columns t,
          rows = map (\<lambda>(i, r). r(u ''Year_of_manufacture'' := to_datetime_coerce parse col i))
                   (zip [0..<length (rows t)] (rows t))\<rparr>)"

text \<open>The part of the method under the comment \<^verbatim>\<open># Filter and map vehicle types\<close>.\<close>

definition filter_and_map_vehicle_types :: "frame \<Rightarrow> error + frame" where
  "filter_and_map_vehicle_types t =
     (if \<not> has_col t (u ''Vehicle_type'') then Inl KeyError
      else
        let t1 = select_rows
                   (\<lambda>r. r (u ''Vehicle_type'') \<notin> {Str trailer_gruzovoy, Str trailer_legkovoy}) t
        in Inr (assign (u ''Vehicle_type'')
                  (\<lambda>r. map_dict vehicle_mapping (r (u ''Vehicle_type''))) t1))"

text \<open>The part of the method under the comment \<^verbatim>\<open># Calculate car age\<close>.\<close>

definition calculate_car_age :: "parser \<Rightarrow> frame \<Rightarrow> error + frame" where
  "calculate_car_age parse t =
     (if \<not> has_col t (u ''Year_of_manufacture'') then Inl KeyError
      else
        let t1 = parse_year_of_manufacture parse t;
            t2 = assign (u ''Car_age'') (\<lambda>r. car_age (r (u ''Year_of_manufacture''))) t1
        in drop_columns [u ''Year_of_manufacture''] t2)"

definition clean_vehicle_and_insurance_info :: "parser \<Rightarrow> frame \<Rightarrow> error + frame" where
  "clean_vehicle_and_insurance_info parse t =
     and_then (filter_and_map_vehicle_types (strip_columns t)) (calculate_car_age parse)"

section \<open>split\_insurance\_dates\<close>

text \<open>
  \<^verbatim>\<open>Series.str.split('-', expand=True)\<close> gives one list of parts per row (the list
  with one \<open>NaN\<close> for a cell that is not a string) and a table as wide as the longest of
  them, no column at all for a table without rows; a shorter list is filled up with missing
  values, and the row of a cell that is not a string is missing in every column. Assigning
  that table to the two labels raises \<^verbatim>\<open>ValueError\<close> unless it has exactly two columns.
  (The column is taken to hold Python objects, as a column of strings does, so that the
  \<^verbatim>\<open>.str\<close> accessor exists.)
\<close>

fun str_split :: "cell \<Rightarrow> cell list" where
  "str_split (Str s) = map Str (split_on 45 s)"
| "str_split c = [NaN]"

definition expand_width :: "cell list list \<Rightarrow> nat" where
  "expand_width ps = fold max (map length ps) 0"

definition part :: "cell list \<Rightarrow> nat \<Rightarrow> cell" where
  "part p i = (if i < length p then p ! i else NaN)"

text \<open>
  \<^verbatim>\<open>pd.to_datetime(column, format='%d.%m.%Y', errors='coerce')\<close>. The format is matched
  as the regular expression
  \<^verbatim>\<open>(3[0-1]|[1-2]\d|0[1-9]|[1-9]| [1-9])\.(1[0-2]|0[1-9]|[1-9])\.(\d\d\d\d)\<close>
  against the whole string: the text before the first dot is a day, the text between the
  dots a month, the rest four digits. Then the date must exist in the calendar. Anything
  else is \<open>NaT\<close>. (Digits are the ASCII digits here.)
\<close>

definition is_digit :: "nat \<Rightarrow> bool" where
  "is_digit n = (48 \<le> n \<and> n \<le> 57)"

definition digit_val :: "nat \<Rightarrow> int" where
  "digit_val n = int n - 48"

fun day_token :: "ustr \<Rightarrow> int option" where
  "day_token [a] = (if 49 \<le> a \<and> a \<le> 57 then Some (digit_val a) else None)"
| "day_token [a, b] =
     (if a = 51 \<and> (b = 48 \<or> b = 49) then Some (30 + digit_val b)
      else if (a = 49 \<or> a = 50) \<and> is_digit b then Some (10 * digit_val a + digit_val b)
      else if (a = 48 \<or> a = 32) \<and> 49 \<le> b \<and> b \<le> 57 then Some (digit_val b)
      else None)"
| "day_token s = None"

fun month_token :: "ustr \<Rightarrow> int option" where
  "month_token [a] = (if 49 \<le> a \<and> a \<le> 57 then Some (digit_val a) else None)"
| "month_token [a, b] =
     (if a = 49 \<and> 48 \<le> b \<and> b \<le> 50 then Some (10 + digit_val b)
      else if a = 48 \<and> 49 \<le> b \<and> b \<le> 57 then Some (digit_val b)
      else None)"
| "month_token s = None"

fun year_token :: "ustr \<Rightarrow> int option" where
  "year_token [a, b, c, d] =
     (if is_digit a \<and> is_digit b \<and> is_digit c \<and> is_digit d
      then Some (1000 * digit_val a + 100 * digit_val b + 10 * digit_val c + digit_val d)
      else None)"
| "year_token s = None"

definition isleap :: "int \<Rightarrow> bool" where
  "isleap y = (y mod 4 = 0 \<and> (y mod 100 \<noteq> 0 \<or> y mod 400 = 0))"

text \<open>The number of days of a month, for a month from 1 to 12.\<close>

definition days_in_month :: "int \<Rightarrow> int \<Rightarrow> int" where
  "days_in_month y m =
     (if m = 2 then (if isleap y then 29 else 28)
      else if m = 4 \<or> m = 6 \<or> m = 9 \<or> m = 11 then 30 else 31)"

definition valid_date :: "date \<Rightarrow> bool" where
  "valid_date d =
     (1 \<le> year d \<and> year d \<le> 9999 \<and> 1 \<le> month d \<and> month d \<le> 12
      \<and> 1 \<le> day d \<and> day d \<le> days_in_month (year d) (month d))"

definition strptime_dmY :: "ustr \<Rightarrow> date option" where
  "strptime_dmY s =
     (case split_on 46 s of
        [ds, ms, ys] \<Rightarrow>
          (case (day_token ds, month_token ms, year_token ys) of
             (Some d, Some m, Some y) \<Rightarrow>
               (if valid_date \<lparr>year = y, month = m, day = d\<rparr>
                then Some \<lparr>year = y, month = m, day = d\<rparr> else None)
           | _ \<Rightarrow> None)
      | _ \<Rightarrow> None)"

fun to_datetime_dmY :: "cell \<Rightarrow> cell" where
  "to_datetime_dmY (Str s) = (case strptime_dmY s of Some d \<Rightarrow> Ts d | None \<Rightarrow> NaT)"
| "to_datetime_dmY (Ts d) = Ts d"
| "to_datetime_dmY c = NaT"

definition split_insurance_dates :: "frame \<Rightarrow> error + frame" where
  "split_insurance_dates t =
     (if \<not> has_col t (u ''Insurance_period'') then Inl KeyError
      else if expand_width (map (\<lambda>r. str_split (r (u ''Insurance_period''))) (rows t)) \<noteq> 2
      then Inl ValueError
      else
        let t1 = assign (u ''start_date'')
                   (\<lambda>r. part (str_split (r (u ''Insurance_period''))) 0) t;
            t2 = assign (u ''end_date'')
                   (\<lambda>r. part (str_split (r (u ''Insurance_period''))) 1) t1;
            t3 = assign (u ''start_date'') (\<lambda>r. to_datetime_dmY (r (u ''start_date''))) t2
        in Inr (assign (u ''end_date'') (\<lambda>r. to_datetime_dmY (r (u ''end_date''))) t3))"

section \<open>calculate\_insurance\_duration\<close>

text \<open>
  \<^verbatim>\<open>relativedelta(dt1, dt2)\<close> of the dateutil library, as far as its fields
  \<^verbatim>\<open>years\<close> and \<^verbatim>\<open>months\<close> go. The library starts from the difference in
  calendar months, adds it to \<open>dt2\<close> and, while that overshoots \<open>dt1\<close>, moves one month back
  towards \<open>dt2\<close>:
  \<^verbatim>\<open>
  months = (dt1.year - dt2.year) * 12 + (dt1.month - dt2.month)
  self._set_months(months)
  dtm = self.__radd__(dt2)
  if dt1 < dt2: compare = operator.gt; increment = 1
  else:         compare = operator.lt; increment = -1
  while compare(dt1, dtm):
      months += increment
      self._set_months(months)
      dtm = self.__radd__(dt2)
  \<close>
\<close>

definition date_lt :: "date \<Rightarrow> date \<Rightarrow> bool" where
  "date_lt a b =
     (year a < year b \<or> (year a = year b \<and>
        (month a < month b \<or> (month a = month b \<and> day a < day b))))"

text \<open>
  \<^verbatim>\<open>_set_months\<close>: the pair \<open>(years, months)\<close> with the sign of the argument and
  \<open>months\<close> between \<open>-11\<close> and \<open>11\<close>.
\<close>

definition set_months :: "int \<Rightarrow> int \<times> int" where
  "set_months m =
     (if \<bar>m\<bar> > 11
      then (let s = (if m < 0 then - 1 else 1)
            in (((m * s) div 12) * s, ((m * s) mod 12) * s))
      else (0, m))"

text \<open>
  \<^verbatim>\<open>relativedelta.__add__\<close> for a delta of years and months only: the day is cut down
  to the length of the month reached.
  \<^verbatim>\<open>
  year = other.year + self.years
  month = other.month
  if self.months:
      assert 1 <= abs(self.months) <= 12
      month += self.months
      if month > 12:  year += 1; month -= 12
      elif month < 1: year -= 1; month += 12
  day = min(calendar.monthrange(year, month)[1], other.day)
  return other.replace(year=year, month=month, day=day)
  \<close>
  \<^verbatim>\<open>calendar.monthrange\<close> raises for a month outside 1 to 12 and \<^verbatim>\<open>replace\<close> for a
  date that does not exist; both exceptions are \<^verbatim>\<open>ValueError\<close>s.
\<close>

definition add_delta :: "int \<times> int \<Rightarrow> date \<Rightarrow> error + date" where
  "add_delta ym other =
     (let years = fst ym; months = snd ym;
          y0 = year other + years;
          m0 = month other
      in if months \<noteq> 0 \<and> \<not> (1 \<le> \<bar>months\<bar> \<and> \<bar>months\<bar> \<le> 12) then Inl AssertionError
         else
           let m1 = (if months \<noteq> 0 then m0 + months else m0);
               y = (if months \<noteq> 0 \<and> m1 > 12 then y0 + 1
                    else if months \<noteq> 0 \<and> m1 < 1 then y0 - 1 else y0);
               m = (if months \<noteq> 0 \<and> m1 > 12 then m1 - 12
                    else if months \<noteq> 0 \<and> m1 < 1 then m1 + 12 else m1)
           in if \<not> (1 \<le> m \<and> m \<le> 12) then Inl ValueError
              else
                let d = min (days_in_month y m) (day other)
                in if valid_date \<lparr>year = y, month = m, day = d\<rparr>
                   then Inr \<lparr>year = y, month = m, day = d\<rparr>
                   else Inl ValueError)"

text \<open>The loop, entered with the current count of months; \<open>up\<close> is the case \<open>dt1 < dt2\<close>.\<close>

function relativedelta_loop :: "bool \<Rightarrow> date \<Rightarrow> date \<Rightarrow> int \<Rightarrow> error + int" where
  "relativedelta_loop up dt1 dt2 months =
     (case add_delta (set_months months) dt2 of
        Inl e \<Rightarrow> Inl e
      | Inr dtm \<Rightarrow>
          if (if up then date_lt dtm dt1 else date_lt dt1 dtm)
          then relativedelta_loop up dt1 dt2 (months + (if up then 1 else - 1))
          else Inr months)"
  by pat_completeness auto

lemma set_months_sum: "12 * fst (set_months k) + snd (set_months k) = k"
proof (cases "k < 0")
  case True
  define q where "q = (- k) div 12"
  define r where "r = (- k) mod 12"
  have "12 * q + r = - k" unfolding q_def r_def by simp
  moreover have "set_months k = (if 11 < - k then (- q, - r) else (0, k))"
    using True by (simp add: set_months_def Let_def q_def r_def)
  ultimately show ?thesis by simp
next
  case False
  then show ?thesis by (simp add: set_months_def Let_def)
qed

lemma add_delta_sum:
  assumes "add_delta (ys, ms) d = Inr d'"
  shows "12 * year d' + month d' = 12 * (year d + ys) + month d + ms
         \<and> 1 \<le> month d' \<and> month d' \<le> 12"
  using assms unfolding add_delta_def Let_def
  by (auto split: if_splits)

lemma add_delta_ym:
  assumes "add_delta (set_months k) d = Inr d'"
  shows "12 * year d' + month d' = 12 * year d + month d + k
         \<and> 1 \<le> month d' \<and> month d' \<le> 12"
proof -
  obtain ys ms where e: "set_months k = (ys, ms)" by (cases "set_months k")
  have s: "12 * ys + ms = k" using set_months_sum [of k] e by simp
  from add_delta_sum [of ys ms d d'] assms e s show ?thesis by auto
qed

text \<open>
  The loop ends: a date that \<open>add_delta\<close> returns has a month from 1 to 12, so its year
  moves with the count of months, and the loop goes on only while that year has not passed
  the year of \<open>dt1\<close>.
\<close>

termination relativedelta_loop
proof (relation "measure (\<lambda>(up, dt1, dt2, months).
            if up then nat (12 * year dt1 + 13 - (12 * year dt2 + month dt2) - months)
            else nat (12 * year dt2 + month dt2 + months - 12 * year dt1))", goal_cases)
  case 1
  show ?case by simp
next
  case (2 up dt1 dt2 months b)
  have ym: "12 * year b + month b = 12 * year dt2 + month dt2 + months"
    and lo: "1 \<le> month b" and hi: "month b \<le> 12"
    using add_delta_ym [OF 2(1)] by simp_all
  show ?case
  proof (cases up)
    case True
    with 2(2) have "year b \<le> year dt1" by (auto simp: date_lt_def)
    with ym lo hi True show ?thesis by simp
  next
    case False
    with 2(2) have "year dt1 \<le> year b" by (auto simp: date_lt_def)
    with ym lo hi False show ?thesis by simp
  qed
qed

definition relativedelta :: "date \<Rightarrow> date \<Rightarrow> error + (int \<times> int)" where
  "relativedelta dt1 dt2 =
     (let months = (year dt1 - year dt2) * 12 + (month dt1 - month dt2)
      in case relativedelta_loop (date_lt dt1 dt2) dt1 dt2 months of
           Inl e \<Rightarrow> Inl e
         | Inr m \<Rightarrow> Inr (set_months m))"

text \<open>
  \<^verbatim>\<open>
  def calculate_months(row):
      diff = relativedelta(row['end_date'], row['start_date'])
      return diff.years * 12 + (diff.months + 1)
  \<close>
  The library takes the difference only \<^verbatim>\<open>if dt1 and dt2\<close>; with an argument that
  counts as false it builds the empty delta. Both arguments must then be dates
  (\<^verbatim>\<open>TypeError\<close> otherwise). \<open>NaT\<close> is a date for that test and counts as true, but
  its year and month are the float \<^verbatim>\<open>nan\<close>: the month count is \<^verbatim>\<open>nan\<close>, and the first
  addition fails at \<^verbatim>\<open>assert 1 <= abs(self.months) <= 12\<close>.
\<close>

fun truthy :: "cell \<Rightarrow> bool" where
  "truthy (Num n) = (n \<noteq> 0)"
| "truthy (Str s) = (s \<noteq> [])"
| "truthy c = True"

fun is_date :: "cell \<Rightarrow> bool" where
  "is_date (Ts d) = True"
| "is_date NaT = True"
| "is_date c = False"

fun relativedelta_cells :: "cell \<Rightarrow> cell \<Rightarrow> error + (int \<times> int)" where
  "relativedelta_cells (Ts a) (Ts b) = relativedelta a b"
| "relativedelta_cells c1 c2 =
     (if truthy c1 \<and> truthy c2
      then (if is_date c1 \<and> is_date c2 then Inl AssertionError else Inl TypeError)
      else Inr (0, 0))"

definition calculate_months :: "row \<Rightarrow> error + cell" where
  "calculate_months r =
     (case relativedelta_cells (r (u ''end_date'')) (r (u ''start_date'')) of
        Inl e \<Rightarrow> Inl e
      | Inr diff \<Rightarrow> Inr (Num (fst diff * 12 + (snd diff + 1))))"

text \<open>\<^verbatim>\<open>df.apply(f, axis=1)\<close>: row after row; the first exception ends it.\<close>

fun apply_rows :: "(row \<Rightarrow> error + cell) \<Rightarrow> row list \<Rightarrow> error + cell list" where
  "apply_rows f [] = Inr []"
| "apply_rows f (r # rs) =
     (case f r of
        Inl e \<Rightarrow> Inl e
      | Inr v \<Rightarrow> (case apply_rows f rs of Inl e \<Rightarrow> Inl e | Inr vs \<Rightarrow> Inr (v # vs)))"

text \<open>
  \<^verbatim>\<open>
  self.df['Insurance_months'] = self.df.apply(calculate_months, axis=1)
  self.df.drop(columns=['Insurance_period', 'start_date', 'end_date'], inplace=True)
  \<close>
  On a table without rows \<^verbatim>\<open>apply\<close> returns a copy of the table, not a column, and
  the assignment of a table with no column or with several columns to one label raises
  \<^verbatim>\<open>ValueError\<close>; with exactly one column the assignment goes through and the
  \<^verbatim>\<open>drop\<close> of three labels raises \<^verbatim>\<open>KeyError\<close>. On a table with rows, a row is
  read at \<^verbatim>\<open>end_date\<close> and \<^verbatim>\<open>start_date\<close>, a \<^verbatim>\<open>KeyError\<close> when the label is
  not there.
\<close>

definition calculate_insurance_duration :: "frame \<Rightarrow> error + frame" where
  "calculate_insurance_duration t =
     (if rows t = [] then (if length (columns t) = 1 then Inl KeyError else Inl ValueError)
      else if \<not> has_col t (u ''end_date'') \<or> \<not> has_col t (u ''start_date'') then Inl KeyError
      else
        case apply_rows calculate_months (rows t) of
          Inl e \<Rightarrow> Inl e
        | Inr vs \<Rightarrow>
            drop_columns [u ''Insurance_period'', u ''start_date'', u ''end_date'']
              \<lparr>columns = (if u ''Insurance_months'' \<in> set (columns t) then columns t
                          else columns t @ [u ''Insurance_months'']),
               rows = map (\<lambda>(r, v). r(u ''Insurance_months'' := v)) (zip (rows t) vs)\<rparr>)"

section \<open>fill\_missing\_privileges\<close>

definition privileges_Ne_invalid :: ustr where \<comment> \<open>Ne invalid\<close>
  "privileges_Ne_invalid =
     [1053, 1077, 32, 1080, 1085, 1074, 1072, 1083, 1080, 1076]"

definition fill_missing_privileges :: "frame \<Rightarrow> error + frame" where
  "fill_missing_privileges t =
     (if has_col t (u ''Privileges'')
      then Inr (assign (u ''Privileges'')
                  (\<lambda>r. fillna privileges_Ne_invalid (r (u ''Privileges''))) t)
      else Inr t)"

section \<open>standardize\_colors\<close>

definition color_Belyy :: ustr where \<comment> \<open>Belyy\<close>
  "color_Belyy =
     [1041, 1077, 1083, 1099, 1081]"

definition color_Chernyy :: ustr where \<comment> \<open>Chernyy\<close>
  "color_Chernyy =
     [1063, 1077, 1088, 1085, 1099, 1081]"

definition color_Seryy :: ustr where \<comment> \<open>Seryy\<close>
  "color_Seryy =
     [1057, 1077, 1088, 1099, 1081]"

definition color_Siniy :: ustr where \<comment> \<open>Siniy\<close>
  "color_Siniy =
     [1057, 1080, 1085, 1080, 1081]"

definition color_Zelenyy :: ustr where \<comment> \<open>Zelenyy\<close>
  "color_Zelenyy =
     [1047, 1077, 1083, 1077, 1085, 1099, 1081]"

definition color_Krasnyy :: ustr where \<comment> \<open>Krasnyy\<close>
  "color_Krasnyy =
     [1050, 1088, 1072, 1089, 1085, 1099, 1081]"

definition color_Zheltyy :: ustr where \<comment> \<open>Zheltyy\<close>
  "color_Zheltyy =
     [1046, 1077, 1083, 1090, 1099, 1081]"

definition color_Korichnevyy :: ustr where \<comment> \<open>Korichnevyy\<close>
  "color_Korichnevyy =
     [1050, 1086, 1088, 1080, 1095, 1085, 1077, 1074, 1099, 1081]"

definition color_Fioletovyy :: ustr where \<comment> \<open>Fioletovyy\<close>
  "color_Fioletovyy =
     [1060, 1080, 1086, 1083, 1077, 1090, 1086, 1074, 1099, 1081]"

definition color_mapping :: "(ustr \<times> ustr) list" where
  "color_mapping =
   [([1073, 1077, 1083, 1099, 1081], \<comment> \<open>belyy\<close>
       color_Belyy),
    ([1089, 1085, 1077, 1078, 1085, 1072, 1103, 32, 1082, 1086, 1088, 1086, 1083, 1077, 1074,
       1072], \<comment> \<open>snezhnaya koroleva\<close>
       color_Belyy),
    ([1078, 1077, 1084, 1095, 1091, 1078, 1085, 1086, 45, 1073, 1077, 1083, 1099, 1081], \<comment> \<open>zhemchuzhno-belyy\<close>
       color_Belyy),
    ([1073, 1077, 1083, 1086, 45, 1089, 1077, 1088, 1099, 1081], \<comment> \<open>belo-seryy\<close>
       color_Belyy),
    ([1095, 1077, 1088, 1085, 1099, 1081], \<comment> \<open>chernyy\<close>
       color_Chernyy),
    ([1095, 1077, 1088, 1085, 1099, 1081, 32, 1084, 1077, 1090, 1072, 1083, 1083, 1080, 1082], \<comment> \<open>chernyy metallik\<close>
       color_Chernyy),
    ([1095, 1077, 1088, 1085, 1099, 1081, 32, 1089, 32, 1092, 1080, 1086, 1083, 1077, 1090,
       1086, 1074, 1099, 1084, 32, 1086, 1090, 1083, 1080, 1074, 1086, 1084], \<comment> \<open>chernyy s fioletovym otlivom\<close>
       color_Chernyy),
    ([1089, 1077, 1088, 1099, 1081], \<comment> \<open>seryy\<close>
       color_Seryy),
    ([1090, 1077, 1084, 1085, 1086, 45, 1089, 1077, 1088, 1099, 1081], \<comment> \<open>temno-seryy\<close>
       color_Seryy),
    ([1075, 1088, 1072, 1092, 1080, 1090], \<comment> \<open>grafit\<close>
       color_Seryy),
    ([1084, 1086, 1082, 1088, 1099, 1081, 32, 1072, 1089, 1092, 1072, 1083, 1100, 1090], \<comment> \<open>mokryy asfalt\<close>
       color_Seryy),
    ([1089, 1080, 1085, 1080, 1081], \<comment> \<open>siniy\<close>
       color_Siniy),
    ([1090, 1077, 1084, 1085, 1086, 45, 1089, 1080, 1085, 1080, 1081], \<comment> \<open>temno-siniy\<close>
       color_Siniy),
    ([1103, 1088, 1082, 1086, 45, 1089, 1080, 1085, 1080, 1081], \<comment> \<open>yarko-siniy\<close>
       color_Siniy),
    ([1089, 1080, 1085, 1077, 45, 1079, 1077, 1083, 1077, 1085, 1099, 1081], \<comment> \<open>sine-zelenyy\<close>
       color_Siniy),
    ([1079, 1077, 1083, 1077, 1085, 1099, 1081], \<comment> \<open>zelenyy\<close>
       color_Zelenyy),
    ([1083, 1072, 1081, 1084], \<comment> \<open>laym\<close>
       color_Zelenyy),
    ([1080, 1079, 1091, 1084, 1088, 1091, 1076, 1085, 1099, 1081], \<comment> \<open>izumrudnyy\<close>
       color_Zelenyy),
    ([1086, 1083, 1080, 1074, 1082, 1086, 1074, 1099, 1081], \<comment> \<open>olivkovyy\<close>
       color_Zelenyy),
    ([1082, 1088, 1072, 1089, 1085, 1099, 1081], \<comment> \<open>krasnyy\<close>
       color_Krasnyy),
    ([1073, 1086, 1088, 1076, 1086, 1074, 1099, 1081], \<comment> \<open>bordovyy\<close>
       color_Krasnyy),
    ([1074, 1080, 1096, 1085, 1077, 1074, 1099, 1081], \<comment> \<open>vishnevyy\<close>
       color_Krasnyy),
    ([1082, 1086, 1088, 1072, 1083, 1083], \<comment> \<open>korall\<close>
       color_Krasnyy),
    ([1078, 1077, 1083, 1090, 1099, 1081], \<comment> \<open>zheltyy\<close>
       color_Zheltyy),
    ([1083, 1080, 1084, 1086, 1085, 1085, 1099, 1081], \<comment> \<open>limonnyy\<close>
       color_Zheltyy),
    ([1089, 1074, 1077, 1090, 1083, 1086, 45, 1078, 1077, 1083, 1090, 1099, 1081], \<comment> \<open>svetlo-zheltyy\<close>
       color_Zheltyy),
    ([1082, 1086, 1088, 1080, 1095, 1085, 1077, 1074, 1099, 1081], \<comment> \<open>korichnevyy\<close>
       color_Korichnevyy),
    ([1084, 1086, 1082, 1082, 1086], \<comment> \<open>mokko\<close>
       color_Korichnevyy),
    ([1096, 1086, 1082, 1086, 1083, 1072, 1076, 1085, 1099, 1081], \<comment> \<open>shokoladnyy\<close>
       color_Korichnevyy),
    ([1092, 1080, 1086, 1083, 1077, 1090, 1086, 1074, 1099, 1081], \<comment> \<open>fioletovyy\<close>
       color_Fioletovyy),
    ([1089, 1080, 1088, 1077, 1085, 1077, 1074, 1099, 1081], \<comment> \<open>sirenevyy\<close>
       color_Fioletovyy),
    ([1083, 1080, 1083, 1086, 1074, 1099, 1081], \<comment> \<open>lilovyy\<close>
       color_Fioletovyy)]"

definition color_Prochie :: ustr where \<comment> \<open>Prochie\<close>
  "color_Prochie =
     [1055, 1088, 1086, 1095, 1080, 1077]"

text \<open>
  \<^verbatim>\<open>
  self.df['Color'] = self.df['Color'].astype(str).apply(
      lambda col: color_mapping.get(col.strip().lower(), default))
  \<close>
  where the default is the literal \<open>color_Prochie\<close>.
\<close>

definition standardize_color :: "cell \<Rightarrow> cell" where
  "standardize_color c =
     Str (case map_of color_mapping (py_lower (py_strip (astype_str c))) of
            Some v \<Rightarrow> v
          | None \<Rightarrow> color_Prochie)"

definition standardize_colors :: "frame \<Rightarrow> error + frame" where
  "standardize_colors t =
     (if \<not> has_col t (u ''Color'') then Inr t
      else Inr (assign (u ''Color'') (\<lambda>r. standardize_color (r (u ''Color''))) t))"

section \<open>standardize\_brands\_and\_models\<close>

definition brand_Lada_cyr :: ustr where \<comment> \<open>Lada\<close>
  "brand_Lada_cyr =
     [1051, 1072, 1076, 1072]"

text \<open>\<^verbatim>\<open>Series.replace(a, b)\<close> with two strings: the cells equal to \<open>a\<close> become \<open>b\<close>.\<close>

definition replace_value :: "ustr \<Rightarrow> ustr \<Rightarrow> cell \<Rightarrow> cell" where
  "replace_value a b c = (if c = Str a then Str b else c)"

text \<open>
  \<^verbatim>\<open>Series.value_counts()\<close> counts the values that are not missing, in the order of
  their first appearance, and sorts the counts in descending order. The order that the
  sort of the library leaves among equal counts is not fixed by its documentation: the
  sort is the parameter \<open>sort_counts\<close> here. \<^verbatim>\<open>nlargest(n)\<close> of the sorted counts keeps
  the first \<open>n\<close> of them (and all of them, in some order, when there are no more than \<open>n\<close>),
  and \<^verbatim>\<open>.index\<close> are the values counted.
\<close>

type_synonym sorter = "(cell \<times> nat) list \<Rightarrow> (cell \<times> nat) list"

fun uniq :: "'a list \<Rightarrow> 'a list" where
  "uniq [] = []"
| "uniq (x # xs) = x # filter (\<lambda>y. y \<noteq> x) (uniq xs)"

definition value_counts :: "sorter \<Rightarrow> cell list \<Rightarrow> (cell \<times> nat) list" where
  "value_counts sort_counts col =
     (let vs = filter (\<lambda>c. \<not> isna c) col
      in sort_counts (map (\<lambda>v. (v, count_list vs v)) (uniq vs)))"

definition nlargest :: "nat \<Rightarrow> (cell \<times> nat) list \<Rightarrow> (cell \<times> nat) list" where
  "nlargest n s = take n s"

definition top_values :: "sorter \<Rightarrow> nat \<Rightarrow> cell list \<Rightarrow> cell list" where
  "top_values sort_counts n col = map fst (nlargest n (value_counts sort_counts col))"

definition keep_top :: "cell list \<Rightarrow> cell \<Rightarrow> cell" where
  "keep_top tops c = (if c \<in> set tops then c else Str (u ''Other''))"

text \<open>
  \<^verbatim>\<open>
  self.df[c] = self.df[c].replace(a, b)
  top = self.df[c].value_counts().nlargest(n).index
  self.df[c] = self.df[c].apply(lambda b: b if b in top else 'Other')
  \<close>
\<close>

definition collapse_column :: "sorter \<Rightarrow> ustr \<Rightarrow> ustr \<Rightarrow> ustr \<Rightarrow> nat \<Rightarrow> frame \<Rightarrow> frame" where
  "collapse_column sort_counts c a b n t =
     (let t1 = assign c (\<lambda>r. replace_value a b (r c)) t;
          tops = top_values sort_counts n (map (\<lambda>r. r c) (rows t1))
      in assign c (\<lambda>r. keep_top tops (r c)) t1)"

definition standardize_brands_and_models :: "sorter \<Rightarrow> frame \<Rightarrow> error + frame" where
  "standardize_brands_and_models sort_counts t =
     (let t1 = (if has_col t (u ''Brand'')
                then collapse_column sort_counts (u ''Brand'') brand_Lada_cyr (u ''Lada'') 37 t
                else t)
      in Inr (if has_col t1 (u ''Model'')
              then collapse_column sort_counts (u ''Model'') (u ''.'') (u ''Unknown'') 50 t1
              else t1))"

section \<open>map\_city\_to\_region\<close>

definition region_Almatinskaya_oblast :: ustr where \<comment> \<open>Almatinskaya oblast\<close>
  "region_Almatinskaya_oblast =
     [1040, 1083, 1084, 1072, 1090, 1080, 1085, 1089, 1082, 1072, 1103, 32, 1086, 1073, 1083,
      1072, 1089, 1090, 1100]"

definition region_Astana :: ustr where \<comment> \<open>Astana\<close>
  "region_Astana =
     [1040, 1089, 1090, 1072, 1085, 1072]"

definition region_Aktyubinskaya_oblast :: ustr where \<comment> \<open>Aktyubinskaya oblast\<close>
  "region_Aktyubinskaya_oblast =
     [1040, 1082, 1090, 1102, 1073, 1080, 1085, 1089, 1082, 1072, 1103, 32, 1086, 1073, 1083,
      1072, 1089, 1090, 1100]"

definition region_Severo_Kazakhstanskaya_oblast :: ustr where \<comment> \<open>Severo-Kazakhstanskaya oblast\<close>
  "region_Severo_Kazakhstanskaya_oblast =
     [1057, 1077, 1074, 1077, 1088, 1086, 45, 1050, 1072, 1079, 1072, 1093, 1089, 1090, 1072,
      1085, 1089, 1082, 1072, 1103, 32, 1086, 1073, 1083, 1072, 1089, 1090, 1100]"

definition region_Akmolinskaya_oblast :: ustr where \<comment> \<open>Akmolinskaya oblast\<close>
  "region_Akmolinskaya_oblast =
     [1040, 1082, 1084, 1086, 1083, 1080, 1085, 1089, 1082, 1072, 1103, 32, 1086, 1073, 1083,
      1072, 1089, 1090, 1100]"

definition region_Kostanayskaya_oblast :: ustr where \<comment> \<open>Kostanayskaya oblast\<close>
  "region_Kostanayskaya_oblast =
     [1050, 1086, 1089, 1090, 1072, 1085, 1072, 1081, 1089, 1082, 1072, 1103, 32, 1086, 1073,
      1083, 1072, 1089, 1090, 1100]"

definition region_Pavlodarskaya_oblast :: ustr where \<comment> \<open>Pavlodarskaya oblast\<close>
  "region_Pavlodarskaya_oblast =
     [1055, 1072, 1074, 1083, 1086, 1076, 1072, 1088, 1089, 1082, 1072, 1103, 32, 1086, 1073,
      1083, 1072, 1089, 1090, 1100]"

definition region_Karagandinskaya_oblast :: ustr where \<comment> \<open>Karagandinskaya oblast\<close>
  "region_Karagandinskaya_oblast =
     [1050, 1072, 1088, 1072, 1075, 1072, 1085, 1076, 1080, 1085, 1089, 1082, 1072, 1103, 32,
      1086, 1073, 1083, 1072, 1089, 1090, 1100]"

definition region_Vostochno_Kazakhstanskaya_oblast :: ustr where \<comment> \<open>Vostochno-Kazakhstanskaya oblast\<close>
  "region_Vostochno_Kazakhstanskaya_oblast =
     [1042, 1086, 1089, 1090, 1086, 1095, 1085, 1086, 45, 1050, 1072, 1079, 1072, 1093, 1089,
      1090, 1072, 1085, 1089, 1082, 1072, 1103, 32, 1086, 1073, 1083, 1072, 1089, 1090, 1100]"

definition region_Mangistauskaya_oblast :: ustr where \<comment> \<open>Mangistauskaya oblast\<close>
  "region_Mangistauskaya_oblast =
     [1052, 1072, 1085, 1075, 1080, 1089, 1090, 1072, 1091, 1089, 1082, 1072, 1103, 32, 1086,
      1073, 1083, 1072, 1089, 1090, 1100]"

definition region_Atyrauskaya_oblast :: ustr where \<comment> \<open>Atyrauskaya oblast\<close>
  "region_Atyrauskaya_oblast =
     [1040, 1090, 1099, 1088, 1072, 1091, 1089, 1082, 1072, 1103, 32, 1086, 1073, 1083, 1072,
      1089, 1090, 1100]"

definition region_Zapadno_Kazakhstanskaya_oblast :: ustr where \<comment> \<open>Zapadno-Kazakhstanskaya oblast\<close>
  "region_Zapadno_Kazakhstanskaya_oblast =
     [1047, 1072, 1087, 1072, 1076, 1085, 1086, 45, 1050, 1072, 1079, 1072, 1093, 1089, 1090,
      1072, 1085, 1089, 1082, 1072, 1103, 32, 1086, 1073, 1083, 1072, 1089, 1090, 1100]"

definition region_Turkestanskaya_oblast :: ustr where \<comment> \<open>Turkestanskaya oblast\<close>
  "region_Turkestanskaya_oblast =
     [1058, 1091, 1088, 1082, 1077, 1089, 1090, 1072, 1085, 1089, 1082, 1072, 1103, 32, 1086,
      1073, 1083, 1072, 1089, 1090, 1100]"

definition region_Kyzylordinskaya_oblast :: ustr where \<comment> \<open>Kyzylordinskaya oblast\<close>
  "region_Kyzylordinskaya_oblast =
     [1050, 1099, 1079, 1099, 1083, 1086, 1088, 1076, 1080, 1085, 1089, 1082, 1072, 1103, 32,
      1086, 1073, 1083, 1072, 1089, 1090, 1100]"

definition region_Zhambylskaya_oblast :: ustr where \<comment> \<open>Zhambylskaya oblast\<close>
  "region_Zhambylskaya_oblast =
     [1046, 1072, 1084, 1073, 1099, 1083, 1089, 1082, 1072, 1103, 32, 1086, 1073, 1083, 1072,
      1089, 1090, 1100]"

definition region_mapping :: "(ustr \<times> ustr) list" where
  "region_mapping =
   [([1040, 1083, 1084, 1072, 1090, 1099], \<comment> \<open>Almaty\<close>
       region_Almatinskaya_oblast),
    ([1053, 1091, 1088, 45, 1057, 1091, 1083, 1090, 1072, 1085], \<comment> \<open>Nur-Sultan\<close>
       region_Astana),
    ([1040, 1082, 1090, 1086, 1073, 1077], \<comment> \<open>Aktobe\<close>
       region_Aktyubinskaya_oblast),
    ([1055, 1077, 1090, 1088, 1086, 1087, 1072, 1074, 1083, 1086, 1074, 1089, 1082], \<comment> \<open>Petropavlovsk\<close>
       region_Severo_Kazakhstanskaya_oblast),
    ([1050, 1086, 1082, 1096, 1077, 1090, 1072, 1091], \<comment> \<open>Kokshetau\<close>
       region_Akmolinskaya_oblast),
    ([1050, 1086, 1089, 1090, 1072, 1085, 1072, 1081], \<comment> \<open>Kostanay\<close>
       region_Kostanayskaya_oblast),
    ([1055, 1072, 1074, 1083, 1086, 1076, 1072, 1088], \<comment> \<open>Pavlodar\<close>
       region_Pavlodarskaya_oblast),
    ([1050, 1072, 1088, 1072, 1075, 1072, 1085, 1076, 1072], \<comment> \<open>Karaganda\<close>
       region_Karagandinskaya_oblast),
    ([1057, 1077, 1084, 1077, 1081], \<comment> \<open>Semey\<close>
       region_Vostochno_Kazakhstanskaya_oblast),
    ([1040, 1082, 1090, 1072, 1091], \<comment> \<open>Aktau\<close>
       region_Mangistauskaya_oblast),
    ([1040, 1090, 1099, 1088, 1072, 1091], \<comment> \<open>Atyrau\<close>
       region_Atyrauskaya_oblast),
    ([1059, 1088, 1072, 1083, 1100, 1089, 1082], \<comment> \<open>Uralsk\<close>
       region_Zapadno_Kazakhstanskaya_oblast),
    ([1058, 1072, 1083, 1076, 1099, 1082, 1086, 1088, 1075, 1072, 1085], \<comment> \<open>Taldykorgan\<close>
       region_Almatinskaya_oblast),
    ([1064, 1099, 1084, 1082, 1077, 1085, 1090], \<comment> \<open>Shymkent\<close>
       region_Turkestanskaya_oblast),
    ([1050, 1099, 1079, 1099, 1083, 1086, 1088, 1076, 1072], \<comment> \<open>Kyzylorda\<close>
       region_Kyzylordinskaya_oblast),
    ([1058, 1072, 1088, 1072, 1079], \<comment> \<open>Taraz\<close>
       region_Zhambylskaya_oblast),
    ([1059, 1089, 1090, 1100, 45, 1050, 1072, 1084, 1077, 1085, 1086, 1075, 1086, 1088, 1089,
       1082], \<comment> \<open>Ust-Kamenogorsk\<close>
       region_Vostochno_Kazakhstanskaya_oblast),
    ([1056, 1091, 1076, 1085, 1099, 1081], \<comment> \<open>Rudnyy\<close>
       region_Kostanayskaya_oblast),
    ([1058, 1077, 1084, 1080, 1088, 1090, 1072, 1091], \<comment> \<open>Temirtau\<close>
       region_Karagandinskaya_oblast),
    ([1045, 1089, 1080, 1082], \<comment> \<open>Esik\<close>
       region_Almatinskaya_oblast),
    ([1040, 1090, 1073, 1072, 1089, 1072, 1088], \<comment> \<open>Atbasar\<close>
       region_Akmolinskaya_oblast),
    ([1046, 1072, 1082, 1089, 1099], \<comment> \<open>Zhaksy\<close>
       region_Akmolinskaya_oblast),
    ([1045, 1089, 1080, 1083, 1100], \<comment> \<open>Esil\<close>
       region_Severo_Kazakhstanskaya_oblast),
    ([1050, 1088, 1072, 1089, 1085, 1099, 1081, 32, 1071, 1088], \<comment> \<open>Krasnyy Yar\<close>
       region_Aktyubinskaya_oblast),
    ([1052, 1072, 1088, 1080, 1085, 1086, 1074, 1082, 1072], \<comment> \<open>Marinovka\<close>
       region_Kostanayskaya_oblast),
    ([1047, 1072, 1087, 1086, 1088, 1086, 1078, 1100, 1077], \<comment> \<open>Zaporozhe\<close>
       region_Kostanayskaya_oblast),
    ([1053, 1086, 1074, 1086, 1072, 1083, 1077, 1082, 1089, 1072, 1085, 1076, 1088, 1086,
       1074, 1082, 1072], \<comment> \<open>Novoaleksandrovka\<close>
       region_Kostanayskaya_oblast),
    ([1041, 1072, 1083, 1082, 1072, 1096, 1080, 1085, 1086], \<comment> \<open>Balkashino\<close>
       region_Akmolinskaya_oblast),
    ([1051, 1086, 1079, 1086, 1074, 1086, 1077], \<comment> \<open>Lozovoe\<close>
       region_Kostanayskaya_oblast),
    ([1058, 1072, 1083, 1075, 1072, 1088], \<comment> \<open>Talgar\<close>
       region_Almatinskaya_oblast),
    ([1045, 1089, 1077, 1085, 1075, 1077, 1083, 1100, 1076, 1099], \<comment> \<open>Esengeldy\<close>
       region_Almatinskaya_oblast),
    ([1053, 1086, 1074, 1086, 1082, 1080, 1077, 1085, 1082, 1072], \<comment> \<open>Novokienka\<close>
       region_Kostanayskaya_oblast),
    ([1041, 1086, 1088, 1080, 1089, 1086, 1074, 1082, 1072], \<comment> \<open>Borisovka\<close>
       region_Severo_Kazakhstanskaya_oblast),
    ([1040, 1088, 1096, 1072, 1083, 1099], \<comment> \<open>Arshaly\<close>
       region_Akmolinskaya_oblast),
    ([1052, 1072, 1082, 1089, 1080, 1084, 1086, 1074, 1082, 1072], \<comment> \<open>Maksimovka\<close>
       region_Akmolinskaya_oblast),
    ([1041, 1086, 1088, 1072, 1083, 1076, 1072, 1081], \<comment> \<open>Boralday\<close>
       region_Almatinskaya_oblast),
    ([1055, 1086, 1082, 1088, 1086, 1074, 1082, 1072], \<comment> \<open>Pokrovka\<close>
       region_Aktyubinskaya_oblast),
    ([1054, 1082, 1090, 1103, 1073, 1088, 1100, 1089, 1082, 1086, 1077], \<comment> \<open>Oktyabrskoe\<close>
       region_Aktyubinskaya_oblast),
    ([1057, 1072, 1076, 1086, 1074, 1086, 1077], \<comment> \<open>Sadovoe\<close>
       region_Severo_Kazakhstanskaya_oblast),
    ([1058, 1080, 1084, 1072, 1096, 1077, 1074, 1082, 1072], \<comment> \<open>Timashevka\<close>
       region_Kostanayskaya_oblast)]"

text \<open>
  \<^verbatim>\<open>
  self.df['City_cleaned'] = self.df['City'].astype(str).apply(lambda x: x.split(',')[0].strip())
  self.df['Region'] = self.df['City_cleaned'].map(region_mapping)
  self.df.drop(columns=["City_cleaned", "City"], inplace=True)
  self.df['Region'] = self.df['Region'].fillna('Unknown')
  \<close>
\<close>

definition map_city_to_region :: "frame \<Rightarrow> error + frame" where
  "map_city_to_region t =
     (if \<not> has_col t (u ''City'') then Inr t
      else
        let t1 = assign (u ''City_cleaned'')
                   (\<lambda>r. Str (py_strip (hd (split_on 44 (astype_str (r (u ''City''))))))) t;
            t2 = assign (u ''Region'') (\<lambda>r. map_dict region_mapping (r (u ''City_cleaned''))) t1
        in and_then (drop_columns [u ''City_cleaned'', u ''City''] t2)
             (\<lambda>t3. Inr (assign (u ''Region'') (\<lambda>r. fillna (u ''Unknown'') (r (u ''Region''))) t3)))"

section \<open>clean\<close>

text \<open>The nine steps in the order of \<^verbatim>\<open>clean()\<close>.\<close>

definition steps :: "parser \<Rightarrow> sorter \<Rightarrow> (frame \<Rightarrow> error + frame) list" where
  "steps parse sort_counts =
     [drop_features,
      adjust_invalid_driving_experience,
      clean_vehicle_and_insurance_info parse,
      split_insurance_dates,
      calculate_insurance_duration,
      fill_missing_privileges,
      standardize_colors,
      standardize_brands_and_models sort_counts,
      map_city_to_region]"

definition clean :: "parser \<Rightarrow> sorter \<Rightarrow> frame \<Rightarrow> error + frame" where
  "clean parse sort_counts t = fold (\<lambda>step m. and_then m step) (steps parse sort_counts) (Inr t)"

section \<open>Notions and example tables for the theorems\<close>

text \<open>
  What follows is not part of the program: the example tables that the theorems are tried
  on, and the notions that their statements need.

  A row given by the cells that are not missing, and the columns of the spreadsheet. The
  library parts that the model leaves open are fixed for the examples: a parser that parses
  nothing (the examples give the year of manufacture as a timestamp, which needs no
  parsing) and a stable sort of the counts.
\<close>

definition mk_row :: "(ustr \<times> cell) list \<Rightarrow> row" where
  "mk_row kvs = (\<lambda>c. case map_of kvs c of Some v \<Rightarrow> v | None \<Rightarrow> NaN)"

definition raw_columns :: "ustr list" where
  "raw_columns =
     [u ''Unique number'', u ''Citizenship'', u ''Gender'', u ''Loss_amount'',
      u ''Accident_region'', u ''Age'', u ''Driving_experience'', u ''Vehicle_type'',
      u ''Year_of_manufacture'', u ''Insurance_period'', u ''Privileges'', u ''Color'',
      u ''Brand'', u ''Model'', u ''City'']"

definition policy :: "cell \<Rightarrow> cell \<Rightarrow> cell \<Rightarrow> cell \<Rightarrow> row" where
  "policy age experience vehicle period =
     mk_row [(u ''Age'', age), (u ''Driving_experience'', experience),
             (u ''Vehicle_type'', vehicle),
             (u ''Year_of_manufacture'', Ts \<lparr>year = 2015, month = 1, day = 1\<rparr>),
             (u ''Insurance_period'', period)]"

definition cells_at :: "ustr list \<Rightarrow> error + frame \<Rightarrow> error + cell list list" where
  "cells_at cs m = (case m of Inl e \<Rightarrow> Inl e | Inr t \<Rightarrow> Inr (map (\<lambda>r. map r cs) (rows t)))"

definition no_parse :: parser where
  "no_parse col i = None"

definition stable_sort_counts :: sorter where
  "stable_sort_counts xs = sort_key (\<lambda>p. - int (snd p)) xs"

text \<open>The scenario of the specification: age 20 with 25 years of experience.\<close>

definition impossible_experience :: frame where
  "impossible_experience =
     \<lparr>columns = [u ''Age'', u ''Driving_experience''],
      rows = [mk_row [(u ''Age'', Num 20), (u ''Driving_experience'', Num 25)]]\<rparr>"

text \<open>A table whose only row has no colour.\<close>

definition missing_color :: frame where
  "missing_color = \<lparr>columns = [u ''Color''], rows = [mk_row []]\<rparr>"

text \<open>A row with a missing age and five years of experience.\<close>

definition missing_age :: frame where
  "missing_age =
     \<lparr>columns = [u ''Age'', u ''Driving_experience''],
      rows = [mk_row [(u ''Driving_experience'', Num 5)]]\<rparr>"

subsection \<open>Where the rows of a result come from\<close>

text \<open>
  Two rows agree outside a set of labels; every row of the second table agrees, outside
  the labels, with a row of the first. These two notions serve the proofs about the whole
  run only: a step that returns rewrites some columns of the rows it keeps.
\<close>

definition agree_outside :: "ustr set \<Rightarrow> row \<Rightarrow> row \<Rightarrow> bool" where
  "agree_outside C r r' = (\<forall>c. c \<notin> C \<longrightarrow> r' c = r c)"

definition rows_from :: "ustr set \<Rightarrow> frame \<Rightarrow> frame \<Rightarrow> bool" where
  "rows_from C t t' = (\<forall>r' \<in> set (rows t'). \<exists>r \<in> set (rows t). agree_outside C r r')"

text \<open>
  \<^verbatim>\<open>adjust_invalid_driving_experience\<close> row by row: the test that a row passes, and
  what becomes of it.
\<close>

definition adjusted :: "row \<Rightarrow> row" where
  "adjusted r =
     adjust_row (r(u ''Age_gap'' := minus_cell (r (u ''Age'')) (r (u ''Driving_experience''))))"

definition stays :: "row \<Rightarrow> bool" where
  "stays r =
     (\<not> gt_cell (r (u ''Driving_experience'')) (r (u ''Age''))
      \<and> ge_cell (adjusted r (u ''Driving_experience'')) (Num 0))"

text \<open>
  Two policies: a driver of unknown age with five years of experience and a car, and a
  driver aged 20 with five years of experience and a vehicle of a category (tractors) that
  the source does not list.
\<close>

definition vehicle_Traktory :: ustr where \<comment> \<open>Traktory\<close>
  "vehicle_Traktory = [1058, 1088, 1072, 1082, 1090, 1086, 1088, 1099]"

definition two_policies :: frame where
  "two_policies =
     \<lparr>columns = raw_columns,
      rows = [policy NaN (Num 5) (Str vehicle_Legkovye_avtomobili)
                (Str (u ''01.01.2024-31.03.2024'')),
              policy (Num 20) (Num 5) (Str vehicle_Traktory)
                (Str (u ''01.01.2024-31.12.2024''))]\<rparr>"


text \<open>
  Two policies, the second with a period that ends on the 31st of February; and the table
  that \<^verbatim>\<open>split_insurance_dates\<close> makes of such a period, reduced to the three columns
  that \<^verbatim>\<open>calculate_insurance_duration\<close> reads.
\<close>

definition unparsable_end :: frame where
  "unparsable_end =
     \<lparr>columns = raw_columns,
      rows = [policy (Num 30) (Num 5) (Str vehicle_Legkovye_avtomobili)
                (Str (u ''01.01.2024-31.03.2024'')),
              policy (Num 40) (Num 10) (Str vehicle_Legkovye_avtomobili)
                (Str (u ''01.01.2024-31.02.2024''))]\<rparr>"

definition missing_end_date :: frame where
  "missing_end_date =
     \<lparr>columns = [u ''Insurance_period'', u ''start_date'', u ''end_date''],
      rows = [mk_row [(u ''Insurance_period'', Str (u ''01.01.2024-31.02.2024'')),
                      (u ''start_date'', Ts \<lparr>year = 2024, month = 1, day = 1\<rparr>),
                      (u ''end_date'', NaT)]]\<rparr>"







text \<open>
  What is asked of the sort of the library inside \<^verbatim>\<open>value_counts\<close>: it permutes the
  counts and puts them in descending order.
\<close>

definition sorts_descending :: "sorter \<Rightarrow> bool" where
  "sorts_descending sort_counts =
     (\<forall>xs. mset (sort_counts xs) = mset xs
           \<and> sorted_wrt (\<lambda>p q. snd q \<le> snd p) (sort_counts xs))"

text \<open>
  Top-N collapsing, in the words of the specification: there is a set of \<open>n\<close> most frequent
  values of the column (all its values, when there are fewer than \<open>n\<close>; missing values do
  not count), every value of the set keeps its name and every other cell becomes
  \<^verbatim>\<open>Other\<close>.
\<close>

definition top_n_kept :: "nat \<Rightarrow> cell list \<Rightarrow> cell list \<Rightarrow> bool" where
  "top_n_kept n col out =
     (\<exists>tops. distinct tops
        \<and> set tops \<subseteq> {v \<in> set col. \<not> isna v}
        \<and> length tops = min n (card {v \<in> set col. \<not> isna v})
        \<and> (\<forall>v \<in> set tops. \<forall>w \<in> set col.
              \<not> isna w \<and> w \<notin> set tops \<longrightarrow> count_list col w \<le> count_list col v)
        \<and> out = map (\<lambda>v. if v \<in> set tops then v else Str (u ''Other'')) col)"

text \<open>Four cars, one under the Cyrillic name of its brand and one with no brand.\<close>

definition four_cars :: frame where
  "four_cars =
     \<lparr>columns = [u ''Brand'', u ''Model''],
      rows = [mk_row [(u ''Brand'', Str brand_Lada_cyr), (u ''Model'', Str (u ''.''))],
              mk_row [(u ''Brand'', Str (u ''Lada'')), (u ''Model'', Str (u ''Granta''))],
              mk_row [(u ''Brand'', Str (u ''Kia'')), (u ''Model'', Str (u ''Rio''))],
              mk_row [(u ''Model'', Str (u ''Rio''))]]\<rparr>"

section \<open>Basic facts\<close>

lemma u_eq_iff [simp]: "u a = u b \<longleftrightarrow> a = b"
  by (simp add: u_def inj_map_eq_map inj_on_def)

lemma rows_assign [simp]: "rows (assign c f t) = map (\<lambda>r. r(c := f r)) (rows t)"
  by (simp add: assign_def)

lemma columns_assign [simp]:
  "columns (assign c f t) = (if c \<in> set (columns t) then columns t else columns t @ [c])"
  by (simp add: assign_def)

lemma rows_select_rows [simp]: "rows (select_rows p t) = filter p (rows t)"
  by (simp add: select_rows_def)

lemma columns_select_rows [simp]: "columns (select_rows p t) = columns t"
  by (simp add: select_rows_def)

lemma has_col_assign [simp]: "has_col (assign c f t) d \<longleftrightarrow> d = c \<or> has_col t d"
  by (auto simp: has_col_def)

lemma has_col_select_rows [simp]: "has_col (select_rows p t) d \<longleftrightarrow> has_col t d"
  by (simp add: has_col_def)

lemma drop_columns_Inr:
  "drop_columns cs t = Inr t' \<longleftrightarrow>
     (\<forall>c \<in> set cs. has_col t c) \<and> t' = \<lparr>columns = filter (\<lambda>c. c \<notin> set cs) (columns t), rows = rows t\<rparr>"
  by (auto simp: drop_columns_def)

lemma and_then_Inr [simp]: "and_then (Inr x) f = f x"
  by (simp add: and_then_def)

lemma and_then_Inl [simp]: "and_then (Inl e) f = Inl e"
  by (simp add: and_then_def)

lemma and_then_eq_Inr: "and_then m f = Inr y \<longleftrightarrow> (\<exists>x. m = Inr x \<and> f x = Inr y)"
  by (cases m) simp_all

lemma apply_rows_length: "apply_rows f rs = Inr vs \<Longrightarrow> length vs = length rs"
  by (induction rs arbitrary: vs) (auto split: sum.splits)

lemma nrows_drop_features: "drop_features t = Inr t' \<Longrightarrow> nrows t' = nrows t"
  by (auto simp: drop_features_def drop_columns_Inr nrows_def)

lemma nrows_adjust: "adjust_invalid_driving_experience t = Inr t' \<Longrightarrow> nrows t' \<le> nrows t"
  by (auto simp: adjust_invalid_driving_experience_def Let_def and_then_eq_Inr drop_columns_Inr nrows_def
      intro: le_trans [OF length_filter_le] split: if_splits)

lemma nrows_clean_vehicle:
  "clean_vehicle_and_insurance_info parse t = Inr t' \<Longrightarrow> nrows t' \<le> nrows t"
  by (auto simp: clean_vehicle_and_insurance_info_def filter_and_map_vehicle_types_def
      calculate_car_age_def and_then_eq_Inr Let_def drop_columns_Inr nrows_def
      parse_year_of_manufacture_def strip_columns_def split: if_splits)

lemma nrows_split: "split_insurance_dates t = Inr t' \<Longrightarrow> nrows t' = nrows t"
  by (auto simp: split_insurance_dates_def Let_def nrows_def split: if_splits)

lemma nrows_duration: "calculate_insurance_duration t = Inr t' \<Longrightarrow> nrows t' = nrows t"
  by (auto simp: calculate_insurance_duration_def drop_columns_Inr nrows_def
      dest: apply_rows_length split: if_splits sum.splits)

lemma nrows_fill: "fill_missing_privileges t = Inr t' \<Longrightarrow> nrows t' = nrows t"
  by (auto simp: fill_missing_privileges_def nrows_def split: if_splits)

lemma nrows_colors: "standardize_colors t = Inr t' \<Longrightarrow> nrows t' = nrows t"
  by (auto simp: standardize_colors_def nrows_def split: if_splits)

lemma nrows_brands: "standardize_brands_and_models sort_counts t = Inr t' \<Longrightarrow> nrows t' = nrows t"
  by (auto simp: standardize_brands_and_models_def collapse_column_def Let_def nrows_def split: if_splits)

lemma nrows_city: "map_city_to_region t = Inr t' \<Longrightarrow> nrows t' = nrows t"
  by (auto simp: map_city_to_region_def Let_def and_then_eq_Inr drop_columns_Inr nrows_def split: if_splits)

section \<open>The number of rows\<close>

text \<open>
  Claim C6. Whatever the table, none of the nine steps that \<^verbatim>\<open>clean()\<close> runs adds a
  row: when a step returns, the table it leaves has at most as many rows as the table it
  was given.
\<close>

theorem no_step_adds_rows:
  assumes "step \<in> set (steps parse sort_counts)" and "step t = Inr t'"
  shows "nrows t' \<le> nrows t"
proof -
  from assms(1) consider
      "step = drop_features" | "step = adjust_invalid_driving_experience"
    | "step = clean_vehicle_and_insurance_info parse" | "step = split_insurance_dates"
    | "step = calculate_insurance_duration" | "step = fill_missing_privileges"
    | "step = standardize_colors" | "step = standardize_brands_and_models sort_counts"
    | "step = map_city_to_region"
    by (auto simp: steps_def)
  then show ?thesis
  proof cases
    case 1 with assms(2) show ?thesis by (simp add: nrows_drop_features)
  next
    case 2 with assms(2) show ?thesis by (simp add: nrows_adjust)
  next
    case 3 with assms(2) show ?thesis by (simp add: nrows_clean_vehicle)
  next
    case 4 with assms(2) show ?thesis by (simp add: nrows_split)
  next
    case 5 with assms(2) show ?thesis by (simp add: nrows_duration)
  next
    case 6 with assms(2) show ?thesis by (simp add: nrows_fill)
  next
    case 7 with assms(2) show ?thesis by (simp add: nrows_colors)
  next
    case 8 with assms(2) show ?thesis by (simp add: nrows_brands)
  next
    case 9 with assms(2) show ?thesis by (simp add: nrows_city)
  qed
qed

theorem no_step_adds_rows_witness:
  "adjust_invalid_driving_experience \<in> set (steps no_parse stable_sort_counts)
   \<and> adjust_invalid_driving_experience impossible_experience
       = Inr \<lparr>columns = [u ''Age'', u ''Driving_experience''], rows = []\<rparr>
   \<and> nrows \<lparr>columns = [u ''Age'', u ''Driving_experience''], rows = []\<rparr>
       \<le> nrows impossible_experience"
proof -
  have s: "adjust_invalid_driving_experience \<in> set (steps no_parse stable_sort_counts)"
    by (simp add: steps_def)
  have e: "adjust_invalid_driving_experience impossible_experience
             = Inr \<lparr>columns = [u ''Age'', u ''Driving_experience''], rows = []\<rparr>"
    by (simp add: adjust_invalid_driving_experience_def impossible_experience_def mk_row_def
        has_col_def Let_def adjust_row_def drop_columns_def)
  from no_step_adds_rows [OF s e] s e show ?thesis by simp
qed

section \<open>Colours\<close>

lemmas str_defs = u_def py_strip_def py_isspace_def py_lower_def lower_cp_def

lemma standardize_color_isna: "isna c \<Longrightarrow> standardize_color c = Str color_Prochie"
  by (cases c) (simp_all add: standardize_color_def str_defs color_mapping_def)

text \<open>
  Claim C10. In \<^verbatim>\<open>standardize_colors\<close> a missing colour does not stay missing: the
  missing value is printed first (as \<^verbatim>\<open>nan\<close>), the printed string is no key of the
  dictionary, and the row gets the catch-all category \<open>color_Prochie\<close>. After the step no
  row has a missing colour.
\<close>

theorem missing_color_becomes_other:
  assumes "has_col t (u ''Color'')"
  shows "\<exists>t'. standardize_colors t = Inr t'
           \<and> columns t' = columns t \<and> length (rows t') = length (rows t)
           \<and> (\<forall>i < length (rows t).
                 isna ((rows t ! i) (u ''Color''))
                 \<longrightarrow> (rows t' ! i) (u ''Color'') = Str color_Prochie)
           \<and> (\<forall>r' \<in> set (rows t'). \<not> isna (r' (u ''Color'')))
           \<and> astype_str NaN = u ''nan''"
  using assms
  by (auto simp: standardize_colors_def standardize_color_isna has_col_def)
     (simp add: standardize_color_def)

theorem missing_color_becomes_other_witness:
  "has_col missing_color (u ''Color'')
   \<and> cells_at [u ''Color''] (Inr missing_color) = Inr [[NaN]]
   \<and> cells_at [u ''Color''] (standardize_colors missing_color) = Inr [[Str color_Prochie]]"
proof -
  have h: "has_col missing_color (u ''Color'')"
    by (simp add: has_col_def missing_color_def)
  from missing_color_becomes_other [OF h] h show ?thesis
    by (simp add: cells_at_def missing_color_def mk_row_def standardize_colors_def
        standardize_color_isna)
qed

section \<open>Driving experience\<close>

lemma mk_row_apply: "mk_row kvs c = (case map_of kvs c of Some v \<Rightarrow> v | None \<Rightarrow> NaN)"
  by (simp add: mk_row_def)

lemma adjusted_fun:
  "adjusted = (\<lambda>r. adjust_row (r(u ''Age_gap'' :=
                  minus_cell (r (u ''Age'')) (r (u ''Driving_experience'')))))"
  by (simp add: fun_eq_iff adjusted_def)

lemma stays_fun:
  "stays = (\<lambda>r. \<not> gt_cell (r (u ''Driving_experience'')) (r (u ''Age''))
               \<and> ge_cell (adjust_row (r(u ''Age_gap'' :=
                    minus_cell (r (u ''Age'')) (r (u ''Driving_experience''))))
                     (u ''Driving_experience'')) (Num 0))"
  by (simp add: fun_eq_iff stays_def adjusted_def)

lemma adjust_rows:
  assumes "adjust_invalid_driving_experience t = Inr t'"
  shows "rows t' = map adjusted (filter stays (rows t))"
    and "columns t' = filter (\<lambda>c. c \<noteq> u ''Age_gap'') (columns t)"
    and "has_col t (u ''Age'')" and "has_col t (u ''Driving_experience'')"
    and "\<forall>r \<in> set (rows t). numeric (r (u ''Age'')) \<and> numeric (r (u ''Driving_experience''))"
  using assms unfolding adjusted_fun stays_fun
  by (auto simp: adjust_invalid_driving_experience_def Let_def and_then_eq_Inr drop_columns_Inr
      filter_map comp_def split: if_splits)


lemma stays_missing_experience: "isna (r (u ''Driving_experience'')) \<Longrightarrow> \<not> stays r"
  by (cases "r (u ''Driving_experience'')") (auto simp: stays_def adjusted_def adjust_row_def)

lemma stays_missing_age:
  assumes "r (u ''Age'') = NaN" and "r (u ''Driving_experience'') = Num x"
  shows "stays r = (0 \<le> x)" and "adjusted r = r(u ''Age_gap'' := NaN)"
  using assms by (auto simp: stays_def adjusted_def adjust_row_def)

lemma adjust_missing_age:
  "adjust_invalid_driving_experience missing_age
     = Inr \<lparr>columns = [u ''Age'', u ''Driving_experience''],
            rows = [(mk_row [(u ''Driving_experience'', Num 5)])(u ''Age_gap'' := NaN)]\<rparr>"
  by (simp add: adjust_invalid_driving_experience_def missing_age_def mk_row_apply
      has_col_def Let_def adjust_row_def drop_columns_def)

text \<open>
  Claim C9 says that \<^verbatim>\<open>adjust_invalid_driving_experience\<close> removes every row whose
  \<^verbatim>\<open>Age\<close> or \<^verbatim>\<open>Driving_experience\<close> is missing. For a missing age the code does
  otherwise: the last filter compares the experience with zero, not with the age, and the
  row with no age and five years of experience stays.
\<close>

theorem missing_age_kept_counterexample:
  "cells_at [u ''Age'', u ''Driving_experience''] (Inr missing_age) = Inr [[NaN, Num 5]]
   \<and> cells_at [u ''Age'', u ''Driving_experience'']
        (adjust_invalid_driving_experience missing_age) = Inr [[NaN, Num 5]]"
  by (simp add: adjust_missing_age cells_at_def mk_row_apply) (simp add: missing_age_def mk_row_apply)

text \<open>
  Claim C9, as the code has it. The rows that \<^verbatim>\<open>adjust_invalid_driving_experience\<close>
  leaves are the rows that pass \<open>stays\<close>, each one adjusted. A row whose
  \<^verbatim>\<open>Driving_experience\<close> is missing never passes: it is removed. A row whose
  \<^verbatim>\<open>Age\<close> is missing and whose experience is the number \<open>x\<close> passes exactly when
  \<open>0 \<le> x\<close>, and it is left as it was (the helper column apart, which is dropped).
\<close>

theorem missing_experience_removed:
  assumes "adjust_invalid_driving_experience t = Inr t'"
  shows "rows t' = map adjusted (filter stays (rows t))
         \<and> (\<forall>r. isna (r (u ''Driving_experience'')) \<longrightarrow> \<not> stays r)
         \<and> (\<forall>r x. r (u ''Age'') = NaN \<and> r (u ''Driving_experience'') = Num x
               \<longrightarrow> stays r = (0 \<le> x) \<and> adjusted r = r(u ''Age_gap'' := NaN))"
proof (intro conjI allI impI)
  show "rows t' = map adjusted (filter stays (rows t))"
    by (rule adjust_rows(1) [OF assms])
next
  fix r :: row
  assume "isna (r (u ''Driving_experience''))"
  then show "\<not> stays r" by (rule stays_missing_experience)
next
  fix r :: row and x
  assume "r (u ''Age'') = NaN \<and> r (u ''Driving_experience'') = Num x"
  then show "stays r = (0 \<le> x)" by (simp add: stays_missing_age(1))
next
  fix r :: row and x
  assume "r (u ''Age'') = NaN \<and> r (u ''Driving_experience'') = Num x"
  then show "adjusted r = r(u ''Age_gap'' := NaN)" by (simp add: stays_missing_age(2))
qed

theorem missing_experience_removed_witness:
  "adjust_invalid_driving_experience missing_age
     = Inr \<lparr>columns = [u ''Age'', u ''Driving_experience''],
            rows = [(mk_row [(u ''Driving_experience'', Num 5)])(u ''Age_gap'' := NaN)]\<rparr>
   \<and> rows missing_age = [mk_row [(u ''Driving_experience'', Num 5)]]
   \<and> stays (mk_row [(u ''Driving_experience'', Num 5)])
   \<and> adjusted (mk_row [(u ''Driving_experience'', Num 5)])
       = (mk_row [(u ''Driving_experience'', Num 5)])(u ''Age_gap'' := NaN)"
proof -
  let ?r = "mk_row [(u ''Driving_experience'', Num 5)]"
  note th = missing_experience_removed [OF adjust_missing_age]
  have c: "?r (u ''Age'') = NaN \<and> ?r (u ''Driving_experience'') = Num 5"
    by (simp add: mk_row_apply)
  from th have "?r (u ''Age'') = NaN \<and> ?r (u ''Driving_experience'') = Num 5
      \<longrightarrow> stays ?r = ((0::int) \<le> 5) \<and> adjusted ?r = ?r(u ''Age_gap'' := NaN)"
    by blast
  with c have s: "stays ?r" and a: "adjusted ?r = ?r(u ''Age_gap'' := NaN)"
    by simp_all
  have r: "rows missing_age = [?r]" by (simp add: missing_age_def)
  from adjust_missing_age r s a show ?thesis by simp
qed

section \<open>The run as a whole\<close>

lemma clean_Inr:
  "clean parse sort_counts t = Inr t' \<longleftrightarrow>
     (\<exists>t1 t2 t3 t4 t5 t6 t7 t8.
        drop_features t = Inr t1
        \<and> adjust_invalid_driving_experience t1 = Inr t2
        \<and> clean_vehicle_and_insurance_info parse t2 = Inr t3
        \<and> split_insurance_dates t3 = Inr t4
        \<and> calculate_insurance_duration t4 = Inr t5
        \<and> fill_missing_privileges t5 = Inr t6
        \<and> standardize_colors t6 = Inr t7
        \<and> standardize_brands_and_models sort_counts t7 = Inr t8
        \<and> map_city_to_region t8 = Inr t')"
  by (simp add: clean_def steps_def and_then_eq_Inr) blast

lemma rows_from_refl: "rows_from C t t"
  unfolding rows_from_def agree_outside_def by blast

lemma rows_from_rows: "rows_from C t t1 \<Longrightarrow> rows t2 = rows t1 \<Longrightarrow> rows_from C t t2"
  unfolding rows_from_def by simp

lemma rows_from_trans:
  "rows_from C t t1 \<Longrightarrow> rows_from D t1 t2 \<Longrightarrow> rows_from (C \<union> D) t t2"
  unfolding rows_from_def agree_outside_def by (metis UnCI)

lemma rows_from_mono: "rows_from C t t' \<Longrightarrow> C \<subseteq> D \<Longrightarrow> rows_from D t t'"
  unfolding rows_from_def agree_outside_def by blast

lemma rows_from_assign: "rows_from C t t1 \<Longrightarrow> c \<in> C \<Longrightarrow> rows_from C t (assign c f t1)"
proof (unfold rows_from_def, intro ballI)
  fix r'
  assume h: "\<forall>r' \<in> set (rows t1). \<exists>r \<in> set (rows t). agree_outside C r r'" and c: "c \<in> C"
    and "r' \<in> set (rows (assign c f t1))"
  then obtain r1 where r1: "r1 \<in> set (rows t1)" and r': "r' = r1(c := f r1)" by auto
  from h r1 obtain r where r: "r \<in> set (rows t)" and a: "agree_outside C r r1" by blast
  from a c r' have "agree_outside C r r'" by (auto simp: agree_outside_def)
  with r show "\<exists>r \<in> set (rows t). agree_outside C r r'" by blast
qed


lemma rows_from_split:
  assumes "split_insurance_dates t = Inr t'"
  shows "rows_from {u ''start_date'', u ''end_date''} t t'"
proof -
  from assms have "t' = assign (u ''end_date'') (\<lambda>r. to_datetime_dmY (r (u ''end_date'')))
        (assign (u ''start_date'') (\<lambda>r. to_datetime_dmY (r (u ''start_date'')))
          (assign (u ''end_date'') (\<lambda>r. part (str_split (r (u ''Insurance_period''))) 1)
            (assign (u ''start_date'') (\<lambda>r. part (str_split (r (u ''Insurance_period''))) 0) t)))"
    by (simp add: split_insurance_dates_def Let_def split: if_splits)
  then show ?thesis
    by (simp only:) (intro rows_from_assign rows_from_refl; simp)
qed

lemma rows_from_duration:
  assumes "calculate_insurance_duration t = Inr t'"
  shows "rows_from {u ''Insurance_months''} t t'"
proof (unfold rows_from_def, intro ballI)
  fix r'
  assume "r' \<in> set (rows t')"
  with assms obtain vs where
    "r' \<in> set (map (\<lambda>(r, v). r(u ''Insurance_months'' := v)) (zip (rows t) vs))"
    by (auto simp: calculate_insurance_duration_def drop_columns_Inr
        split: if_splits sum.splits)
  then obtain r v where "r \<in> set (rows t)" and "r' = r(u ''Insurance_months'' := v)"
    by (auto dest: set_zip_leftD)
  then show "\<exists>r \<in> set (rows t). agree_outside {u ''Insurance_months''} r r'"
    by (auto simp: agree_outside_def)
qed

lemma rows_from_fill:
  "fill_missing_privileges t = Inr t' \<Longrightarrow> rows_from {u ''Privileges''} t t'"
  by (auto simp: fill_missing_privileges_def split: if_splits
      intro!: rows_from_assign rows_from_refl)

lemma rows_from_colors:
  "standardize_colors t = Inr t' \<Longrightarrow> rows_from {u ''Color''} t t'"
  by (auto simp: standardize_colors_def split: if_splits
      intro!: rows_from_assign rows_from_refl)

lemma rows_from_collapse:
  "c \<in> C \<Longrightarrow> rows_from C t t1 \<Longrightarrow> rows_from C t (collapse_column sort_counts c a b n t1)"
  by (simp add: collapse_column_def Let_def rows_from_assign)

lemma rows_from_brands:
  "standardize_brands_and_models sort_counts t = Inr t'
   \<Longrightarrow> rows_from {u ''Brand'', u ''Model''} t t'"
  by (auto simp: standardize_brands_and_models_def Let_def split: if_splits
      intro!: rows_from_collapse rows_from_refl)

lemma rows_from_city:
  assumes "map_city_to_region t = Inr t'"
  shows "rows_from {u ''City_cleaned'', u ''Region''} t t'"
proof (cases "has_col t (u ''City'')")
  case False
  with assms show ?thesis by (simp add: map_city_to_region_def rows_from_refl)
next
  case True
  let ?t2 = "assign (u ''Region'') (\<lambda>r. map_dict region_mapping (r (u ''City_cleaned'')))
              (assign (u ''City_cleaned'')
                 (\<lambda>r. Str (py_strip (hd (split_on 44 (astype_str (r (u ''City''))))))) t)"
  from assms True
  have r: "rows t' = rows (assign (u ''Region'') (\<lambda>r. fillna (u ''Unknown'') (r (u ''Region''))) ?t2)"
    by (auto simp: map_city_to_region_def Let_def and_then_eq_Inr drop_columns_Inr)
  have "rows_from {u ''City_cleaned'', u ''Region''} t
          (assign (u ''Region'') (\<lambda>r. fillna (u ''Unknown'') (r (u ''Region''))) ?t2)"
    by (intro rows_from_assign rows_from_refl; simp)
  then show ?thesis using r by (rule rows_from_rows)
qed


lemma rows_from_parse_year:
  "rows_from {u ''Year_of_manufacture'', u ''Car_age''} t (parse_year_of_manufacture parse t)"
  by (auto simp: rows_from_def agree_outside_def parse_year_of_manufacture_def
      dest!: set_zip_rightD)

lemma rows_from_car_age:
  assumes "calculate_car_age parse t = Inr t'"
  shows "rows_from {u ''Year_of_manufacture'', u ''Car_age''} t t'"
proof -
  let ?t2 = "assign (u ''Car_age'') (\<lambda>r. car_age (r (u ''Year_of_manufacture'')))
               (parse_year_of_manufacture parse t)"
  from assms have "rows t' = rows ?t2"
    by (auto simp: calculate_car_age_def Let_def drop_columns_Inr split: if_splits)
  moreover have "rows_from {u ''Year_of_manufacture'', u ''Car_age''} t ?t2"
    by (intro rows_from_assign rows_from_parse_year) simp
  ultimately show ?thesis by (rule rows_from_rows [rotated])
qed

text \<open>The labels that the steps after \<^verbatim>\<open>clean_vehicle_and_insurance_info\<close> write.\<close>

lemma rows_from_late:
  assumes "split_insurance_dates t3 = Inr t4"
    and "calculate_insurance_duration t4 = Inr t5"
    and "fill_missing_privileges t5 = Inr t6"
    and "standardize_colors t6 = Inr t7"
    and "standardize_brands_and_models sort_counts t7 = Inr t8"
    and "map_city_to_region t8 = Inr t'"
  shows "rows_from {u ''start_date'', u ''end_date'', u ''Insurance_months'', u ''Privileges'',
                    u ''Color'', u ''Brand'', u ''Model'', u ''City_cleaned'', u ''Region''} t3 t'"
proof -
  note a = rows_from_trans [OF rows_from_split [OF assms(1)] rows_from_duration [OF assms(2)]]
  note b = rows_from_trans [OF a rows_from_fill [OF assms(3)]]
  note c = rows_from_trans [OF b rows_from_colors [OF assms(4)]]
  note d = rows_from_trans [OF c rows_from_brands [OF assms(5)]]
  note e = rows_from_trans [OF d rows_from_city [OF assms(6)]]
  show ?thesis by (rule rows_from_mono [OF e]) auto
qed


lemma clean_vehicle_Inr:
  "clean_vehicle_and_insurance_info parse t = Inr t' \<longleftrightarrow>
     (\<exists>ta. filter_and_map_vehicle_types (strip_columns t) = Inr ta
           \<and> calculate_car_age parse ta = Inr t')"
  by (simp add: clean_vehicle_and_insurance_info_def and_then_eq_Inr)




lemma late_labels_Age:
  "u ''Age'' \<notin> {u ''start_date'', u ''end_date'', u ''Insurance_months'', u ''Privileges'',
                u ''Color'', u ''Brand'', u ''Model'', u ''City_cleaned'', u ''Region''}"
  "u ''Driving_experience'' \<notin> {u ''start_date'', u ''end_date'', u ''Insurance_months'',
                u ''Privileges'', u ''Color'', u ''Brand'', u ''Model'', u ''City_cleaned'',
                u ''Region''}"
  by simp_all

text \<open>The whole run on the two policies, cell by cell.\<close>

lemmas step_defs = drop_features_def drop_columns_def has_col_def assign_def select_rows_def and_then_def
  adjust_invalid_driving_experience_def adjust_row_def Let_def clean_vehicle_and_insurance_info_def
  filter_and_map_vehicle_types_def calculate_car_age_def
  strip_columns_def relabel_row_def parse_year_of_manufacture_def to_datetime_coerce_def
  split_insurance_dates_def expand_width_def part_def strptime_dmY_def valid_date_def days_in_month_def isleap_def
  is_digit_def digit_val_def calculate_insurance_duration_def calculate_months_def relativedelta_def
  fill_missing_privileges_def fillna_def standardize_colors_def standardize_color_def
  standardize_brands_and_models_def collapse_column_def replace_value_def value_counts_def nlargest_def top_values_def keep_top_def
  map_city_to_region_def clean_def steps_def date_lt_def set_months_def add_delta_def

lemmas literal_defs = str_defs zfill_def str_int_def
  trailer_gruzovoy_def trailer_legkovoy_def vehicle_mapping_def vehicle_Legkovye_avtomobili_def
  vehicle_Mototsikly_def vehicle_Gruzovye_def vehicle_Avtobusy_def
  color_mapping_def color_Prochie_def region_mapping_def brand_Lada_cyr_def privileges_Ne_invalid_def
  no_parse_def stable_sort_counts_def raw_columns_def policy_def mk_row_def cells_at_def

lemma clean_two_policies:
  "cells_at [u ''Age'', u ''Driving_experience'', u ''Vehicle_type'', u ''Car_age'',
             u ''Insurance_months'']
     (clean no_parse stable_sort_counts two_policies)
   = Inr [[NaN, Num 5, Str vehicle_Legkovye_avtomobili, Num 10, Num 3],
          [Num 20, Num 2, NaN, Num 10, Num 12]]"
  by (simp add: step_defs literal_defs two_policies_def vehicle_Traktory_def del: u_eq_iff)

lemma clean_two_policies_Inr: "\<exists>t'. clean no_parse stable_sort_counts two_policies = Inr t'"
  using clean_two_policies
  by (cases "clean no_parse stable_sort_counts two_policies") (simp_all add: cells_at_def)





section \<open>Vehicle types\<close>

lemma map_dict_vehicle_mapping:
  "map_dict vehicle_mapping c \<in> {NaN, Str vehicle_Legkovye_avtomobili, Str vehicle_Mototsikly,
                                  Str vehicle_Gruzovye, Str vehicle_Avtobusy}"
  by (cases c) (auto simp: vehicle_mapping_def)

lemma map_dict_NaN_iff: "map_dict d c = NaN \<longleftrightarrow> c \<notin> Str ` fst ` set d"
proof (cases c)
  case (Str s)
  have "Str s \<in> Str ` fst ` set d \<longleftrightarrow> s \<in> fst ` set d" by auto
  moreover have "map_dict d (Str s) = NaN \<longleftrightarrow> map_of d s = None"
    by (cases "map_of d s") simp_all
  ultimately show ?thesis using Str by (simp add: map_of_eq_None_iff)
qed auto

lemma filter_and_map_vehicle_types_rows:
  assumes "filter_and_map_vehicle_types t = Inr ta"
  shows "rows ta = map (\<lambda>r. r(u ''Vehicle_type'' := map_dict vehicle_mapping (r (u ''Vehicle_type''))))
                     (filter (\<lambda>r. r (u ''Vehicle_type'')
                                  \<notin> {Str trailer_gruzovoy, Str trailer_legkovoy}) (rows t))"
  using assms by (auto simp: filter_and_map_vehicle_types_def Let_def split: if_splits)

text \<open>
  Claim C2 says that every row of the table that \<^verbatim>\<open>clean()\<close> returns has one of the
  four canonical vehicle types, and no missing one. The second policy of the example has
  a category that is neither a trailer nor a key of \<^verbatim>\<open>vehicle_mapping\<close>: the row is in
  the result and its vehicle type is missing.
\<close>

theorem vehicle_type_canonical_counterexample:
  "cells_at [u ''Age'', u ''Driving_experience'', u ''Vehicle_type'', u ''Car_age'',
             u ''Insurance_months'']
     (clean no_parse stable_sort_counts two_policies)
   = Inr [[NaN, Num 5, Str vehicle_Legkovye_avtomobili, Num 10, Num 3],
          [Num 20, Num 2, NaN, Num 10, Num 12]]
   \<and> NaN \<notin> {Str vehicle_Legkovye_avtomobili, Str vehicle_Mototsikly, Str vehicle_Gruzovye,
              Str vehicle_Avtobusy}"
  using clean_two_policies by simp

text \<open>
  Claim C2, as the code has it. In every row of the table that \<^verbatim>\<open>clean()\<close> returns,
  \<^verbatim>\<open>Vehicle_type\<close> is one of the four canonical categories or missing. The step
  that maps the vehicle types drops the rows of the two trailer categories and no other
  row, and it leaves a missing vehicle type exactly where the value is no key of
  \<^verbatim>\<open>vehicle_mapping\<close>.
\<close>

theorem vehicle_type_canonical_or_missing:
  assumes run: "clean parse sort_counts t = Inr t'"
  shows "(\<forall>r \<in> set (rows t').
           r (u ''Vehicle_type'') \<in> {NaN, Str vehicle_Legkovye_avtomobili, Str vehicle_Mototsikly,
                                      Str vehicle_Gruzovye, Str vehicle_Avtobusy})
         \<and> (\<forall>t0 ta. filter_and_map_vehicle_types t0 = Inr ta \<longrightarrow>
               rows ta = map (\<lambda>r. r(u ''Vehicle_type'' :=
                                     map_dict vehicle_mapping (r (u ''Vehicle_type''))))
                           (filter (\<lambda>r. r (u ''Vehicle_type'')
                                        \<notin> {Str trailer_gruzovoy, Str trailer_legkovoy}) (rows t0)))
         \<and> (\<forall>c. map_dict vehicle_mapping c = NaN \<longleftrightarrow> c \<notin> Str ` fst ` set vehicle_mapping)"
proof (intro conjI ballI allI impI)
  fix t0 ta
  assume "filter_and_map_vehicle_types t0 = Inr ta"
  then show "rows ta = map (\<lambda>r. r(u ''Vehicle_type'' :=
                                     map_dict vehicle_mapping (r (u ''Vehicle_type''))))
                           (filter (\<lambda>r. r (u ''Vehicle_type'')
                                        \<notin> {Str trailer_gruzovoy, Str trailer_legkovoy}) (rows t0))"
    by (rule filter_and_map_vehicle_types_rows)
next
  fix c
  show "map_dict vehicle_mapping c = NaN \<longleftrightarrow> c \<notin> Str ` fst ` set vehicle_mapping"
    by (rule map_dict_NaN_iff)
next
  fix r'
  assume r': "r' \<in> set (rows t')"
  from run obtain t1 t2 t3 t4 t5 t6 t7 t8 where
    s3: "clean_vehicle_and_insurance_info parse t2 = Inr t3"
    and s4: "split_insurance_dates t3 = Inr t4"
    and s5: "calculate_insurance_duration t4 = Inr t5"
    and s6: "fill_missing_privileges t5 = Inr t6"
    and s7: "standardize_colors t6 = Inr t7"
    and s8: "standardize_brands_and_models sort_counts t7 = Inr t8"
    and s9: "map_city_to_region t8 = Inr t'"
    unfolding clean_Inr by blast
  from s3 obtain ta where ta: "filter_and_map_vehicle_types (strip_columns t2) = Inr ta"
    and t3: "calculate_car_age parse ta = Inr t3"
    by (auto simp: clean_vehicle_Inr)
  from rows_from_late [OF s4 s5 s6 s7 s8 s9] r' obtain r3 where r3: "r3 \<in> set (rows t3)"
    and a3: "r' (u ''Vehicle_type'') = r3 (u ''Vehicle_type'')"
    by (auto simp: rows_from_def agree_outside_def)
  from rows_from_car_age [OF t3] r3 obtain ra where ra: "ra \<in> set (rows ta)"
    and aa: "r3 (u ''Vehicle_type'') = ra (u ''Vehicle_type'')"
    by (auto simp: rows_from_def agree_outside_def)
  from ta ra obtain r where "ra (u ''Vehicle_type'') = map_dict vehicle_mapping r"
    by (auto simp: filter_and_map_vehicle_types_def Let_def split: if_splits)
  with a3 aa map_dict_vehicle_mapping [of r]
  show "r' (u ''Vehicle_type'') \<in> {NaN, Str vehicle_Legkovye_avtomobili, Str vehicle_Mototsikly,
                                      Str vehicle_Gruzovye, Str vehicle_Avtobusy}"
    by simp
qed

theorem vehicle_type_canonical_or_missing_witness:
  "cells_at [u ''Age'', u ''Driving_experience'', u ''Vehicle_type'', u ''Car_age'',
             u ''Insurance_months'']
     (clean no_parse stable_sort_counts two_policies)
   = Inr [[NaN, Num 5, Str vehicle_Legkovye_avtomobili, Num 10, Num 3],
          [Num 20, Num 2, NaN, Num 10, Num 12]]
   \<and> Str vehicle_Legkovye_avtomobili
       \<in> {NaN, Str vehicle_Legkovye_avtomobili, Str vehicle_Mototsikly, Str vehicle_Gruzovye,
           Str vehicle_Avtobusy}"
proof -
  obtain t' where c: "clean no_parse stable_sort_counts two_policies = Inr t'"
    using clean_two_policies_Inr by blast
  note vehicle_type_canonical_or_missing [OF c, THEN conjunct1]
  with clean_two_policies show ?thesis by simp
qed

section \<open>The age of the car\<close>





section \<open>Missing dates\<close>

lemma apply_rows_Inr: "apply_rows f rs = Inr vs \<Longrightarrow> r \<in> set rs \<Longrightarrow> \<exists>v. f r = Inr v"
  by (induction rs arbitrary: vs) (auto split: sum.splits)

lemma calculate_months_NaT:
  assumes "is_date (r (u ''end_date''))" and "is_date (r (u ''start_date''))"
    and "r (u ''end_date'') = NaT \<or> r (u ''start_date'') = NaT"
  shows "calculate_months r = Inl AssertionError"
  using assms
  by (cases "r (u ''end_date'')"; cases "r (u ''start_date'')")
     (simp_all add: calculate_months_def)

lemma split_unparsable_end_cell:
  "to_datetime_dmY (part (str_split (Str (u ''01.01.2024-31.02.2024''))) 0)
     = Ts \<lparr>year = 2024, month = 1, day = 1\<rparr>
   \<and> to_datetime_dmY (part (str_split (Str (u ''01.01.2024-31.02.2024''))) 1) = NaT"
  by (simp add: part_def strptime_dmY_def valid_date_def days_in_month_def isleap_def
      is_digit_def digit_val_def u_def)

lemma clean_unparsable_end:
  "clean no_parse stable_sort_counts unparsable_end = Inl AssertionError"
  by (simp add: step_defs literal_defs unparsable_end_def del: u_eq_iff)

text \<open>
  Claim C7 says that a row with a missing start or end date gets a missing
  \<^verbatim>\<open>Insurance_months\<close> and stays, without a number and without a failure of the run.
  The code does not do that: one row with a missing start or end date (the other one a
  date or missing too, as after \<^verbatim>\<open>split_insurance_dates\<close>) makes
  \<^verbatim>\<open>calculate_insurance_duration\<close> raise. No table comes back, so no row gets a
  missing \<^verbatim>\<open>Insurance_months\<close>.
\<close>

theorem missing_date_aborts:
  assumes "r \<in> set (rows t)"
    and "is_date (r (u ''end_date''))" and "is_date (r (u ''start_date''))"
    and "r (u ''end_date'') = NaT \<or> r (u ''start_date'') = NaT"
  shows "\<exists>e. calculate_insurance_duration t = Inl e"
proof (cases "calculate_insurance_duration t")
  case (Inl e)
  then show ?thesis by blast
next
  case (Inr t')
  then obtain vs where "apply_rows calculate_months (rows t) = Inr vs"
    by (auto simp: calculate_insurance_duration_def split: if_splits sum.splits)
  from apply_rows_Inr [OF this assms(1)] calculate_months_NaT [OF assms(2-4)]
  show ?thesis by simp
qed

text \<open>
  The failing input: \<^verbatim>\<open>split_insurance_dates\<close> turns the end date
  \<^verbatim>\<open>31.02.2024\<close> into \<open>NaT\<close>, as its \<^verbatim>\<open>errors='coerce'\<close> asks for, and
  \<^verbatim>\<open>calculate_insurance_duration\<close> then raises \<^verbatim>\<open>AssertionError\<close>, which ends
  \<^verbatim>\<open>clean()\<close>.
\<close>

theorem missing_date_aborts_witness:
  "to_datetime_dmY (part (str_split (Str (u ''01.01.2024-31.02.2024''))) 1) = NaT
   \<and> map (\<lambda>r. (r (u ''start_date''), r (u ''end_date''))) (rows missing_end_date)
       = [(Ts \<lparr>year = 2024, month = 1, day = 1\<rparr>, NaT)]
   \<and> calculate_insurance_duration missing_end_date = Inl AssertionError
   \<and> clean no_parse stable_sort_counts unparsable_end = Inl AssertionError"
proof -
  let ?r = "mk_row [(u ''Insurance_period'', Str (u ''01.01.2024-31.02.2024'')),
                    (u ''start_date'', Ts \<lparr>year = 2024, month = 1, day = 1\<rparr>),
                    (u ''end_date'', NaT)]"
  have r: "?r \<in> set (rows missing_end_date)" by (simp add: missing_end_date_def)
  have c: "?r (u ''start_date'') = Ts \<lparr>year = 2024, month = 1, day = 1\<rparr>"
    "?r (u ''end_date'') = NaT"
    by (simp_all add: mk_row_apply)
  from c have d: "is_date (?r (u ''end_date''))" "is_date (?r (u ''start_date''))"
    "?r (u ''end_date'') = NaT \<or> ?r (u ''start_date'') = NaT"
    by simp_all
  note missing_date_aborts [OF r d]
  moreover have "calculate_insurance_duration missing_end_date = Inl AssertionError"
    by (simp add: calculate_insurance_duration_def calculate_months_def missing_end_date_def
        has_col_def mk_row_apply)
  ultimately show ?thesis
    using split_unparsable_end_cell clean_unparsable_end c
    by (simp add: missing_end_date_def)
qed

section \<open>Splitting the period\<close>














section \<open>The duration of the insurance\<close>
















section \<open>Brands and models\<close>

lemma set_uniq: "set (uniq xs) = set xs"
  by (induction xs) auto

lemma distinct_uniq: "distinct (uniq xs)"
  by (induction xs) (auto simp: set_uniq)

lemma count_list_filter: "P v \<Longrightarrow> count_list (filter P xs) v = count_list xs v"
  by (induction xs) auto

lemma top_values_props:
  fixes n :: nat and col :: "cell list" and sort_counts :: sorter
  assumes s: "sorts_descending sort_counts"
  defines "tops \<equiv> top_values sort_counts n col"
  shows "distinct tops"
    and "set tops \<subseteq> {v \<in> set col. \<not> isna v}"
    and "length tops = min n (card {v \<in> set col. \<not> isna v})"
    and "\<forall>v \<in> set tops. \<forall>w \<in> set col.
           \<not> isna w \<and> w \<notin> set tops \<longrightarrow> count_list col w \<le> count_list col v"
proof -
  define vs where "vs = filter (\<lambda>c. \<not> isna c) col"
  define L where "L = map (\<lambda>v. (v, count_list vs v)) (uniq vs)"
  define S where "S = sort_counts L"
  have tops: "tops = map fst (take n S)"
    by (simp add: tops_def top_values_def nlargest_def value_counts_def Let_def S_def L_def
        vs_def)
  from s have ms: "mset S = mset L" and sorted: "sorted_wrt (\<lambda>p q. snd q \<le> snd p) S"
    by (simp_all add: sorts_descending_def S_def)
  have fstL: "map fst L = uniq vs" by (simp add: L_def comp_def)
  have "mset (map fst S) = mset (map fst L)" using ms by simp
  then have mfst: "mset (map fst S) = mset (uniq vs)" by (simp add: fstL)
  have dS: "distinct (map fst S)"
    using mfst distinct_uniq [of vs] by (metis mset_eq_imp_distinct_iff)
  have setS: "set (map fst S) = set vs"
    using mfst by (metis mset_eq_setD set_uniq)
  have lenS: "length S = card (set vs)"
  proof -
    have "length S = length L" using ms by (metis size_mset)
    also have "\<dots> = length (uniq vs)" by (simp add: L_def)
    also have "\<dots> = card (set vs)"
      using distinct_card [OF distinct_uniq, of vs] by (simp add: set_uniq)
    finally show ?thesis .
  qed
  have setvs: "set vs = {v \<in> set col. \<not> isna v}" by (auto simp: vs_def)
  show "distinct tops"
    unfolding tops using dS by (simp add: take_map [symmetric] distinct_take)
  show "set tops \<subseteq> {v \<in> set col. \<not> isna v}"
  proof -
    have "set tops \<subseteq> set (map fst S)"
      unfolding tops by (auto dest: in_set_takeD)
    then show ?thesis unfolding setS setvs .
  qed
  show "length tops = min n (card {v \<in> set col. \<not> isna v})"
    unfolding tops by (simp add: lenS setvs min.commute)
  show "\<forall>v \<in> set tops. \<forall>w \<in> set col.
          \<not> isna w \<and> w \<notin> set tops \<longrightarrow> count_list col w \<le> count_list col v"
  proof (intro ballI impI)
    fix v w
    assume v: "v \<in> set tops" and w: "w \<in> set col" and w': "\<not> isna w \<and> w \<notin> set tops"
    have inL: "p \<in> set S \<Longrightarrow> snd p = count_list col (fst p) \<and> \<not> isna (fst p)" for p
    proof -
      assume "p \<in> set S"
      then have "p \<in> set L" using ms by (metis mset_eq_setD)
      then obtain x where "x \<in> set vs" and p: "p = (x, count_list vs x)"
        by (auto simp: L_def set_uniq)
      then have "\<not> isna x" by (simp add: vs_def)
      with p show ?thesis by (simp add: vs_def count_list_filter)
    qed
    from v obtain p where p: "p \<in> set (take n S)" and pv: "fst p = v"
      by (auto simp: tops)
    from w w' have "w \<in> set vs" by (simp add: vs_def)
    then have "w \<in> set (map fst S)" unfolding setS .
    then obtain q where q: "q \<in> set S" and qw: "fst q = w" by auto
    from w' qw have "q \<notin> set (take n S)" by (auto simp: tops)
    with q have qd: "q \<in> set (drop n S)"
      by (metis Un_iff append_take_drop_id set_append)
    from sorted have "sorted_wrt (\<lambda>p q. snd q \<le> snd p) (take n S @ drop n S)" by simp
    with p qd have "snd q \<le> snd p" unfolding sorted_wrt_append by blast
    moreover from p have "p \<in> set S" by (rule in_set_takeD)
    ultimately show "count_list col w \<le> count_list col v"
      using inL [of p] inL [OF q] pv qw by simp
  qed
qed

lemma collapse_column_kept:
  assumes s: "sorts_descending sort_counts"
  shows "top_n_kept n (map (\<lambda>r. replace_value a b (r c)) (rows t))
           (map (\<lambda>r. r c) (rows (collapse_column sort_counts c a b n t)))"
    and "\<forall>i < length (rows t). \<forall>c'. c' \<noteq> c
           \<longrightarrow> (rows (collapse_column sort_counts c a b n t) ! i) c' = (rows t ! i) c'"
    and "length (rows (collapse_column sort_counts c a b n t)) = length (rows t)"
    and "columns (collapse_column sort_counts c a b n t)
           = (if c \<in> set (columns t) then columns t else columns t @ [c])"
proof -
  let ?col = "map (\<lambda>r. replace_value a b (r c)) (rows t)"
  let ?tops = "top_values sort_counts n ?col"
  have o: "map (\<lambda>r. r c) (rows (collapse_column sort_counts c a b n t))
             = map (\<lambda>v. if v \<in> set ?tops then v else Str (u ''Other'')) ?col"
    by (simp add: collapse_column_def Let_def comp_def keep_top_def)
  show "top_n_kept n ?col (map (\<lambda>r. r c) (rows (collapse_column sort_counts c a b n t)))"
    unfolding top_n_kept_def
    using top_values_props [OF s, of n ?col] o by (intro exI [of _ ?tops]) blast
  show "\<forall>i < length (rows t). \<forall>c'. c' \<noteq> c
          \<longrightarrow> (rows (collapse_column sort_counts c a b n t) ! i) c' = (rows t ! i) c'"
    by (simp add: collapse_column_def Let_def)
  show "length (rows (collapse_column sort_counts c a b n t)) = length (rows t)"
    by (simp add: collapse_column_def Let_def)
  show "columns (collapse_column sort_counts c a b n t)
          = (if c \<in> set (columns t) then columns t else columns t @ [c])"
    by (simp add: collapse_column_def Let_def)
qed

text \<open>
  Claim C8. With a sort of the counts that sorts, \<^verbatim>\<open>standardize_brands_and_models\<close>
  on a table with both columns renames the Cyrillic brand name and then keeps the values
  of a set of 37 most frequent brands and turns every other brand into \<^verbatim>\<open>Other\<close>; it
  renames the placeholder model and does the same with 50 models; it changes nothing else.
  The result is a function of the table and of the sort.
\<close>

theorem top_brands_and_models_kept:
  assumes s: "sorts_descending sort_counts"
    and cols: "has_col t (u ''Brand'')" "has_col t (u ''Model'')"
  shows "\<exists>t'. standardize_brands_and_models sort_counts t = Inr t'
           \<and> length (rows t') = length (rows t)
           \<and> top_n_kept 37
                (map (\<lambda>r. replace_value brand_Lada_cyr (u ''Lada'') (r (u ''Brand''))) (rows t))
                (map (\<lambda>r. r (u ''Brand'')) (rows t'))
           \<and> top_n_kept 50
                (map (\<lambda>r. replace_value (u ''.'') (u ''Unknown'') (r (u ''Model''))) (rows t))
                (map (\<lambda>r. r (u ''Model'')) (rows t'))
           \<and> (\<forall>i < length (rows t). \<forall>c. c \<noteq> u ''Brand'' \<and> c \<noteq> u ''Model''
                 \<longrightarrow> (rows t' ! i) c = (rows t ! i) c)"
proof -
  let ?t1 = "collapse_column sort_counts (u ''Brand'') brand_Lada_cyr (u ''Lada'') 37 t"
  let ?t2 = "collapse_column sort_counts (u ''Model'') (u ''.'') (u ''Unknown'') 50 ?t1"
  note b = collapse_column_kept [OF s, where n = 37 and a = brand_Lada_cyr and b = "u ''Lada''"
      and c = "u ''Brand''" and t = t]
  note m = collapse_column_kept [OF s, where n = 50 and a = "u ''.''" and b = "u ''Unknown''"
      and c = "u ''Model''" and t = ?t1]
  from cols b(4) have "has_col ?t1 (u ''Model'')" by (simp add: has_col_def)
  with cols have r: "standardize_brands_and_models sort_counts t = Inr ?t2"
    by (simp add: standardize_brands_and_models_def Let_def)
  have len: "length (rows ?t2) = length (rows t)" using b(3) m(3) by simp
  have brand2: "map (\<lambda>r. r (u ''Brand'')) (rows ?t2) = map (\<lambda>r. r (u ''Brand'')) (rows ?t1)"
    using m(2) m(3) by (intro nth_equalityI) simp_all
  have model1: "map (\<lambda>r. replace_value (u ''.'') (u ''Unknown'') (r (u ''Model''))) (rows ?t1)
                  = map (\<lambda>r. replace_value (u ''.'') (u ''Unknown'') (r (u ''Model''))) (rows t)"
    using b(2) b(3) by (intro nth_equalityI) simp_all
  have other: "(rows ?t2 ! i) c = (rows t ! i) c"
    if "i < length (rows t)" "c \<noteq> u ''Brand''" "c \<noteq> u ''Model''" for i c
    using that b(2) b(3) m(2) by simp
  from b(1) brand2 have tb: "top_n_kept 37
      (map (\<lambda>r. replace_value brand_Lada_cyr (u ''Lada'') (r (u ''Brand''))) (rows t))
      (map (\<lambda>r. r (u ''Brand'')) (rows ?t2))" by simp
  from m(1) model1 have tm: "top_n_kept 50
      (map (\<lambda>r. replace_value (u ''.'') (u ''Unknown'') (r (u ''Model''))) (rows t))
      (map (\<lambda>r. r (u ''Model'')) (rows ?t2))" by simp
  from r len tb tm other show ?thesis by blast
qed

lemma stable_sort_counts_sorts: "sorts_descending stable_sort_counts"
proof -
  have "sorted_wrt (\<lambda>p q. snd q \<le> snd p) (sort_key (\<lambda>p. - int (snd p)) xs)"
    for xs :: "(cell \<times> nat) list"
    using sorted_sort_key [of "\<lambda>p. - int (snd p)" xs] by (simp add: sorted_map)
  then show ?thesis by (simp add: sorts_descending_def stable_sort_counts_def)
qed

lemma standardize_four_cars:
  "cells_at [u ''Brand'', u ''Model''] (standardize_brands_and_models stable_sort_counts four_cars)
     = Inr [[Str (u ''Lada''), Str (u ''Unknown'')],
            [Str (u ''Lada''), Str (u ''Granta'')],
            [Str (u ''Kia''), Str (u ''Rio'')],
            [Str (u ''Other''), Str (u ''Rio'')]]"
  by (simp add: standardize_brands_and_models_def collapse_column_def replace_value_def
      value_counts_def nlargest_def top_values_def keep_top_def has_col_def assign_def Let_def
      stable_sort_counts_def four_cars_def mk_row_apply cells_at_def brand_Lada_cyr_def u_def
      del: u_eq_iff)

theorem top_brands_and_models_kept_witness:
  "sorts_descending stable_sort_counts
   \<and> has_col four_cars (u ''Brand'') \<and> has_col four_cars (u ''Model'')
   \<and> cells_at [u ''Brand'', u ''Model''] (Inr four_cars)
      = Inr [[Str brand_Lada_cyr, Str (u ''.'')],
             [Str (u ''Lada''), Str (u ''Granta'')],
             [Str (u ''Kia''), Str (u ''Rio'')],
             [NaN, Str (u ''Rio'')]]
   \<and> cells_at [u ''Brand'', u ''Model''] (standardize_brands_and_models stable_sort_counts four_cars)
      = Inr [[Str (u ''Lada''), Str (u ''Unknown'')],
             [Str (u ''Lada''), Str (u ''Granta'')],
             [Str (u ''Kia''), Str (u ''Rio'')],
             [Str (u ''Other''), Str (u ''Rio'')]]"
proof -
  have c: "has_col four_cars (u ''Brand'')" "has_col four_cars (u ''Model'')"
    by (simp_all add: has_col_def four_cars_def)
  have i: "cells_at [u ''Brand'', u ''Model''] (Inr four_cars)
      = Inr [[Str brand_Lada_cyr, Str (u ''.'')],
             [Str (u ''Lada''), Str (u ''Granta'')],
             [Str (u ''Kia''), Str (u ''Rio'')],
             [NaN, Str (u ''Rio'')]]"
    by (simp add: cells_at_def four_cars_def mk_row_apply)
  note top_brands_and_models_kept [OF stable_sort_counts_sorts c]
  with stable_sort_counts_sorts c i standardize_four_cars show ?thesis by blast
qed

end
